theory Spec2Isabelle
  imports Complex_Main "HOL-Library.Log_Nat" "HOL-Library.AList"
begin

section \<open>Python values\<close>

text \<open>
  The value of \<^verbatim>\<open>json.loads(resp.read())\<close> is an arbitrary JSON document. A Python
  \<^verbatim>\<open>dict\<close> is an association list holding each key once, in insertion order. A
  string is its list of code points (the 8-bit \<^typ>\<open>char\<close> covers U+0000 to U+00FF).
  A finite Python \<^verbatim>\<open>float\<close> (IEEE 754 binary64) is the rational number it denotes;
  \<^verbatim>\<open>-0.0\<close> is identified with \<^verbatim>\<open>0.0\<close>, to which Python compares it equal.
\<close>

datatype pyfloat = Finite rat | PosInf | NegInf | NaN

datatype json =
    JNull
  | JBool bool
  | JInt int
  | JFloat pyfloat
  | JStr string
  | JList "json list"
  | JDict "(string \<times> json) list"

text \<open>
  The exceptions raised inside \<^verbatim>\<open>fetch_gas_price\<close>: by \<^verbatim>\<open>urllib\<close> and
  \<^verbatim>\<open>json\<close> (\<open>OSError\<close> stands for \<^verbatim>\<open>URLError\<close>, \<^verbatim>\<open>HTTPError\<close> and
  timeouts, \<open>OtherException\<close> for any further subclass of \<^verbatim>\<open>Exception\<close>), and by
  the built-in operations on the parsed response. Every one of them is an instance of
  \<^verbatim>\<open>Exception\<close>. \<^verbatim>\<open>KeyboardInterrupt\<close> and \<^verbatim>\<open>SystemExit\<close>, which derive from
  \<^verbatim>\<open>BaseException\<close> only and come from signals and interpreter exit rather than from
  an endpoint, are not modelled.
\<close>

datatype exn =
    TypeError
  | ValueError
  | OverflowError
  | KeyError
  | IndexError
  | OSError
  | JSONDecodeError
  | OtherException string

subsection \<open>Membership and subscription with a string key\<close>

fun startswith :: "string \<Rightarrow> string \<Rightarrow> bool" where
  "startswith s [] = True"
| "startswith [] (p # ps) = False"
| "startswith (c # s) (p # ps) = (c = p \<and> startswith s ps)"

fun str_contains :: "string \<Rightarrow> string \<Rightarrow> bool" where
  "str_contains [] sub = (sub = [])"
| "str_contains (c # s) sub = (startswith (c # s) sub \<or> str_contains s sub)"

text \<open>
  \<^verbatim>\<open>k in data\<close> for a string \<open>k\<close>: key membership in a dict, element membership in a
  list, substring test in a string; \<^verbatim>\<open>None\<close>, booleans and numbers are not
  containers and raise \<^verbatim>\<open>TypeError\<close>.
\<close>

definition py_in :: "string \<Rightarrow> json \<Rightarrow> exn + bool" where
  "py_in k data =
     (case data of
        JDict kvs \<Rightarrow> Inr (k \<in> set (map fst kvs))
      | JList xs \<Rightarrow> Inr (JStr k \<in> set xs)
      | JStr s \<Rightarrow> Inr (str_contains s k)
      | _ \<Rightarrow> Inl TypeError)"

text \<open>
  \<^verbatim>\<open>data[k]\<close> for a string \<open>k\<close>: a dict raises \<^verbatim>\<open>KeyError\<close> on a missing key;
  every other JSON value raises \<^verbatim>\<open>TypeError\<close> (lists and strings take integer
  indices, the rest are not subscriptable).
\<close>

definition py_getitem :: "json \<Rightarrow> string \<Rightarrow> exn + json" where
  "py_getitem data k =
     (case data of
        JDict kvs \<Rightarrow> (case map_of kvs k of Some v \<Rightarrow> Inr v | None \<Rightarrow> Inl KeyError)
      | _ \<Rightarrow> Inl TypeError)"

subsection \<open>\<^verbatim>\<open>int(x, 16)\<close>\<close>

text \<open>
  CPython's \<^verbatim>\<open>int(s, 16)\<close> on a string: surrounding whitespace is skipped, then an
  optional sign, an optional \<^verbatim>\<open>0x\<close> or \<^verbatim>\<open>0X\<close> prefix (which one underscore may
  follow), then hexadecimal digits with single underscores between them. Anything else
  raises \<^verbatim>\<open>ValueError\<close>. Within U+0000 to U+00FF the whitespace skipped is tab, line
  feed, vertical tab, form feed, carriage return, space, U+0085 and U+00A0.
\<close>

definition is_space :: "char \<Rightarrow> bool" where
  "is_space c = (of_char c \<in> set [9, 10, 11, 12, 13, 32, 133, 160 :: int])"

definition hex_digit :: "char \<Rightarrow> int option" where
  "hex_digit c =
     (let n = (of_char c :: int)
      in if 48 \<le> n \<and> n \<le> 57 then Some (n - 48)
         else if 97 \<le> n \<and> n \<le> 102 then Some (n - 87)
         else if 65 \<le> n \<and> n \<le> 70 then Some (n - 55)
         else None)"

text \<open>
  The digit scan: \<open>prev\<close> is the character consumed last (\<open>None\<close> before the first),
  \<open>acc\<close> the value so far. It stops at the first character that is neither a digit nor
  an underscore and fails on a doubled or trailing underscore and on an empty scan.
\<close>

fun scan_digits :: "char option \<Rightarrow> string \<Rightarrow> int \<Rightarrow> (int \<times> string) option" where
  "scan_digits prev [] acc =
     (if prev = None \<or> prev = Some CHR ''_'' then None else Some (acc, []))"
| "scan_digits prev (c # cs) acc =
     (if c = CHR ''_'' then
        (if prev = Some CHR ''_'' then None else scan_digits (Some c) cs acc)
      else
        (case hex_digit c of
           Some d \<Rightarrow> scan_digits (Some c) cs (16 * acc + d)
         | None \<Rightarrow>
             (if prev = None \<or> prev = Some CHR ''_'' then None else Some (acc, c # cs))))"

definition strip_sign :: "string \<Rightarrow> bool \<times> string" where
  "strip_sign s =
     (case s of
        [] \<Rightarrow> (False, s)
      | c # cs \<Rightarrow>
          if c = CHR ''+'' then (False, cs)
          else if c = CHR ''-'' then (True, cs)
          else (False, s))"

definition strip_prefix :: "string \<Rightarrow> string" where
  "strip_prefix s =
     (case s of
        z # x # cs \<Rightarrow>
          if z = CHR ''0'' \<and> (x = CHR ''x'' \<or> x = CHR ''X'') then
            (case cs of
               [] \<Rightarrow> cs
             | u # cs' \<Rightarrow> if u = CHR ''_'' then cs' else cs)
          else s
      | _ \<Rightarrow> s)"

definition int16_of_str :: "string \<Rightarrow> exn + int" where
  "int16_of_str s =
     (let (neg, s2) = strip_sign (dropWhile is_space s);
          s3 = strip_prefix s2
      in case s3 of
           [] \<Rightarrow> Inl ValueError
         | u # _ \<Rightarrow>
             if u = CHR ''_'' then Inl ValueError
             else
               (case scan_digits None s3 0 of
                  None \<Rightarrow> Inl ValueError
                | Some (n, rest) \<Rightarrow>
                    if dropWhile is_space rest = [] then
                      Inr (if neg then - n else n)
                    else Inl ValueError))"

text \<open>With an explicit base, \<^verbatim>\<open>int\<close> accepts only a string among the JSON values.\<close>

definition py_int16 :: "json \<Rightarrow> exn + int" where
  "py_int16 v = (case v of JStr s \<Rightarrow> int16_of_str s | _ \<Rightarrow> Inl TypeError)"

subsection \<open>Binary64 arithmetic\<close>

text \<open>
  \<open>fl q\<close> is the number with a 53-bit significand nearest to \<open>q\<close>, ties to the even
  significand: the rounding of every binary64 operation. The exponent is unbounded here;
  \<open>float_of_int\<close> below raises where the binary64 range ends, and the quotients and
  roundings the program goes on to compute from a finite value stay within the normal
  range.
\<close>

definition round_half_even :: "rat \<Rightarrow> int" where
  "round_half_even x =
     (let f = \<lfloor>x\<rfloor>; d = x - of_int f
      in if d < 1 / 2 then f
         else if 1 / 2 < d then f + 1
         else if even f then f else f + 1)"

text \<open>For \<open>0 < q\<close>, \<open>ilog2 q\<close> is the integer \<open>k\<close> with \<open>2 powi k \<le> q < 2 powi (k + 1)\<close>.\<close>

definition ilog2 :: "rat \<Rightarrow> int" where
  "ilog2 q =
     (let (a, b) = quotient_of q; d = bitlen a - bitlen b
      in if 2 powi d \<le> q then d else d - 1)"

definition fl :: "rat \<Rightarrow> rat" where
  "fl q =
     (if q = 0 then 0
      else let e = ilog2 \<bar>q\<bar> - 52
           in of_int (round_half_even (q / 2 powi e)) * 2 powi e)"

text \<open>
  The conversion of an \<^verbatim>\<open>int\<close> operand to \<^verbatim>\<open>float\<close>: correctly rounded, and
  \<^verbatim>\<open>OverflowError\<close> when the rounded value reaches \<open>2 ^ 1024\<close>.
\<close>

definition float_of_int :: "int \<Rightarrow> exn + rat" where
  "float_of_int n =
     (let x = fl (of_int n)
      in if 2 ^ 1024 \<le> \<bar>x\<bar> then Inl OverflowError else Inr x)"

text \<open>\<^verbatim>\<open>wei / 1e9\<close>: the integer is converted, then divided in binary64.\<close>

definition truediv_1e9 :: "int \<Rightarrow> exn + rat" where
  "truediv_1e9 wei =
     (case float_of_int wei of
        Inl e \<Rightarrow> Inl e
      | Inr x \<Rightarrow> Inr (fl (x / 1000000000)))"

text \<open>
  \<^verbatim>\<open>round(gwei, 4)\<close>: CPython rounds the exact value of the float to four decimals,
  ties to even, and converts that decimal back to the nearest float.
\<close>

definition round4 :: "rat \<Rightarrow> rat" where
  "round4 g = fl (of_int (round_half_even (g * 10000)) / 10000)"

section \<open>Configuration\<close>

datatype chain_config = ChainConfig (name: string) (rpcs: "string list")

definition RECIPIENT_WALLET :: string where
  "RECIPIENT_WALLET = ''0xaab80bc6b6040ae845ce225181fd72297ba71b13''"

definition NETWORK :: string where
  "NETWORK = ''base''"

definition PRICING :: "(string \<times> string) list" where
  "PRICING = [(''premium_all'', ''0.001''), (''premium_recommend'', ''0.0005'')]"

definition CHAINS :: "(string \<times> chain_config) list" where
  "CHAINS =
     [(''ethereum'', ChainConfig ''Ethereum''
         [''https://ethereum.publicnode.com'', ''https://eth.drpc.org'', ''https://1rpc.io/eth'']),
      (''base'', ChainConfig ''Base''
         [''https://base.publicnode.com'', ''https://base.drpc.org'', ''https://1rpc.io/base'']),
      (''arbitrum'', ChainConfig ''Arbitrum One''
         [''https://arbitrum-one.publicnode.com'', ''https://arb1.arbitrum.io/rpc'']),
      (''optimism'', ChainConfig ''Optimism''
         [''https://optimism.publicnode.com'', ''https://mainnet.optimism.io'']),
      (''polygon'', ChainConfig ''Polygon''
         [''https://polygon-bor.publicnode.com'', ''https://polygon-rpc.com''])]"

section \<open>The outside world\<close>

text \<open>
  One endpoint attempt (building the request, \<^verbatim>\<open>urlopen\<close>, \<^verbatim>\<open>resp.read()\<close> and
  \<^verbatim>\<open>json.loads\<close>) either raises or yields the parsed body. What it does is decided by
  the network: a transport maps the URL and the state of the network to the outcome and
  the next state. The world also records the URLs attempted, oldest first.
\<close>

type_synonym 'e transport = "string \<Rightarrow> 'e \<Rightarrow> (exn + json) \<times> 'e"

record 'e world =
  attempts :: "string list"
  env :: 'e

definition post_eth_gasPrice ::
  "'e transport \<Rightarrow> string \<Rightarrow> 'e world \<Rightarrow> (exn + json) \<times> 'e world" where
  "post_eth_gasPrice net rpc w =
     (case net rpc (env w) of
        (out, e') \<Rightarrow> (out, \<lparr>attempts = attempts w @ [rpc], env = e'\<rparr>))"

section \<open>\<^verbatim>\<open>fetch_gas_price\<close>\<close>

text \<open>
  The three dictionaries \<^verbatim>\<open>fetch_gas_price\<close> returns: \<open>Reading c n wei g l\<close> is
  \<^verbatim>\<open>{"chain": c, "name": n, "gasPrice": {"wei": wei, "gwei": g}, "level": l}\<close>,
  \<open>Failure (Some c) m\<close> is \<^verbatim>\<open>{"chain": c, "error": m}\<close> and \<open>Failure None m\<close> is
  \<^verbatim>\<open>{"error": m}\<close>; \<open>result_json\<close> gives the dictionary itself.
\<close>

datatype result =
    Reading (r_chain: string) (r_name: string) (r_wei: int) (r_gwei: rat) (r_level: string)
  | Failure (f_chain: "string option") (f_error: string)

fun result_json :: "result \<Rightarrow> json" where
  "result_json (Reading c n wei g l) =
     JDict [(''chain'', JStr c), (''name'', JStr n),
            (''gasPrice'', JDict [(''wei'', JInt wei), (''gwei'', JFloat (Finite g))]),
            (''level'', JStr l)]"
| "result_json (Failure (Some c) m) = JDict [(''chain'', JStr c), (''error'', JStr m)]"
| "result_json (Failure None m) = JDict [(''error'', JStr m)]"

definition level_of :: "rat \<Rightarrow> string" where
  "level_of gwei =
     (if gwei < 5 then ''low''
      else if gwei < 20 then ''medium''
      else if gwei < 50 then ''high''
      else ''extreme'')"

text \<open>
  The body of the \<^verbatim>\<open>try\<close> after the response is parsed: \<open>Inr (Some r)\<close> is the
  \<^verbatim>\<open>return\<close>, \<open>Inr None\<close> the end of the body with no \<^verbatim>\<open>"result"\<close> in the
  data, \<open>Inl e\<close> an exception raised on the way.
\<close>

definition handle_response :: "string \<Rightarrow> string \<Rightarrow> json \<Rightarrow> exn + result option" where
  "handle_response chain nm data =
     (case py_in ''result'' data of
        Inl e \<Rightarrow> Inl e
      | Inr False \<Rightarrow> Inr None
      | Inr True \<Rightarrow>
          (case py_getitem data ''result'' of
             Inl e \<Rightarrow> Inl e
           | Inr v \<Rightarrow>
               (case py_int16 v of
                  Inl e \<Rightarrow> Inl e
                | Inr wei \<Rightarrow>
                    (case truediv_1e9 wei of
                       Inl e \<Rightarrow> Inl e
                     | Inr gwei \<Rightarrow>
                         Inr (Some (Reading chain nm wei (round4 gwei) (level_of gwei)))))))"

definition attempt ::
  "'e transport \<Rightarrow> string \<Rightarrow> string \<Rightarrow> string \<Rightarrow> 'e world \<Rightarrow> (exn + result option) \<times> 'e world"
  where
  "attempt net chain nm rpc w =
     (case post_eth_gasPrice net rpc w of
        (Inl e, w') \<Rightarrow> (Inl e, w')
      | (Inr data, w') \<Rightarrow> (handle_response chain nm data, w'))"

text \<open>
  The \<^verbatim>\<open>for\<close> loop over the endpoints. \<^verbatim>\<open>except Exception: continue\<close> catches
  every exception of the attempt; an attempt that ends without returning goes on to the
  next endpoint as well. After the last endpoint comes the final \<^verbatim>\<open>return\<close>.
\<close>

fun try_rpcs ::
  "'e transport \<Rightarrow> string \<Rightarrow> string \<Rightarrow> string list \<Rightarrow> 'e world \<Rightarrow> (exn + result) \<times> 'e world"
  where
  "try_rpcs net chain nm [] w = (Inr (Failure (Some chain) ''All RPCs failed''), w)"
| "try_rpcs net chain nm (rpc # rest) w =
     (case attempt net chain nm rpc w of
        (Inl e, w') \<Rightarrow> try_rpcs net chain nm rest w'
      | (Inr None, w') \<Rightarrow> try_rpcs net chain nm rest w'
      | (Inr (Some r), w') \<Rightarrow> (Inr r, w'))"

definition fetch_gas_price ::
  "(string \<times> chain_config) list \<Rightarrow> 'e transport \<Rightarrow> string \<Rightarrow> 'e world
     \<Rightarrow> (exn + result) \<times> 'e world" where
  "fetch_gas_price tbl net chain w =
     (case map_of tbl chain of
        None \<Rightarrow> (Inr (Failure None (''Unknown chain: '' @ chain)), w)
      | Some config \<Rightarrow> try_rpcs net chain (name config) (rpcs config) w)"

section \<open>Aggregation over the configured chains\<close>

text \<open>
  \<^verbatim>\<open>for chain in CHAINS: results[chain] = fetch_gas_price(chain)\<close>, the loop of
  \<^verbatim>\<open>gas_all\<close> and of \<^verbatim>\<open>premium_all\<close>. \<open>AList.update\<close> is the assignment to a
  dict entry: it replaces the value of a key already present and appends a new key.
\<close>

fun collect_results ::
  "(string \<times> chain_config) list \<Rightarrow> 'e transport \<Rightarrow> string list \<Rightarrow> (string \<times> result) list
     \<Rightarrow> 'e world \<Rightarrow> (exn + (string \<times> result) list) \<times> 'e world" where
  "collect_results tbl net [] results w = (Inr results, w)"
| "collect_results tbl net (chain # cs) results w =
     (case fetch_gas_price tbl net chain w of
        (Inl e, w') \<Rightarrow> (Inl e, w')
      | (Inr r, w') \<Rightarrow> collect_results tbl net cs (AList.update chain r results) w')"

definition results_json :: "(string \<times> result) list \<Rightarrow> json" where
  "results_json results = JDict (map (\<lambda>(c, r). (c, result_json r)) results)"

text \<open>
  \<^verbatim>\<open>gas_all\<close> returns \<^verbatim>\<open>json.dumps(results, indent=2)\<close>; the model returns the
  value that is serialised.
\<close>

definition gas_all ::
  "(string \<times> chain_config) list \<Rightarrow> 'e transport \<Rightarrow> 'e world \<Rightarrow> (exn + json) \<times> 'e world" where
  "gas_all tbl net w =
     (case collect_results tbl net (map fst tbl) [] w of
        (Inl e, w') \<Rightarrow> (Inl e, w')
      | (Inr results, w') \<Rightarrow> (Inr (results_json results), w'))"

text \<open>
  An entry of \<^verbatim>\<open>prices\<close>: \<open>Price c n g\<close> is
  \<^verbatim>\<open>{"chain": c, "name": n, "gwei": g}\<close>.
\<close>

datatype price = Price (p_chain: string) (p_name: string) (p_gwei: rat)

definition price_json :: "price \<Rightarrow> json" where
  "price_json p =
     JDict [(''chain'', JStr (p_chain p)), (''name'', JStr (p_name p)),
            (''gwei'', JFloat (Finite (p_gwei p)))]"

text \<open>
  The loop of \<^verbatim>\<open>gas_recommend\<close> and of \<^verbatim>\<open>premium_recommend\<close>; of the
  dictionaries \<^verbatim>\<open>fetch_gas_price\<close> returns, exactly the readings contain
  \<^verbatim>\<open>"gasPrice"\<close>.
\<close>

fun collect_prices ::
  "(string \<times> chain_config) list \<Rightarrow> 'e transport \<Rightarrow> string list \<Rightarrow> price list
     \<Rightarrow> 'e world \<Rightarrow> (exn + price list) \<times> 'e world" where
  "collect_prices tbl net [] prices w = (Inr prices, w)"
| "collect_prices tbl net (chain # cs) prices w =
     (case fetch_gas_price tbl net chain w of
        (Inl e, w') \<Rightarrow> (Inl e, w')
      | (Inr (Reading c n wei g l), w') \<Rightarrow>
          collect_prices tbl net cs (prices @ [Price chain n g]) w'
      | (Inr (Failure fc m), w') \<Rightarrow> collect_prices tbl net cs prices w')"

text \<open>
  The f-string of the reason. \<open>repr\<close> is Python's conversion of a float to text, which
  is not modelled and stays a parameter.
\<close>

definition reason_text :: "(rat \<Rightarrow> string) \<Rightarrow> price \<Rightarrow> string" where
  "reason_text repr p = p_name p @ '' has lowest gas at '' @ repr (p_gwei p) @ '' gwei''"

text \<open>
  \<^verbatim>\<open>prices.sort(key=lambda x: x["gwei"])\<close> is a stable sort, and so is
  \<^const>\<open>sort_key\<close>; a stable sort has one result only. \<^verbatim>\<open>prices[0]\<close> raises
  \<^verbatim>\<open>IndexError\<close> on an empty list. As for \<^verbatim>\<open>gas_all\<close>, the value passed to
  \<^verbatim>\<open>json.dumps\<close> is returned.
\<close>

definition gas_recommend ::
  "(rat \<Rightarrow> string) \<Rightarrow> (string \<times> chain_config) list \<Rightarrow> 'e transport \<Rightarrow> 'e world
     \<Rightarrow> (exn + json) \<times> 'e world" where
  "gas_recommend repr tbl net w =
     (case collect_prices tbl net (map fst tbl) [] w of
        (Inl e, w') \<Rightarrow> (Inl e, w')
      | (Inr prices, w') \<Rightarrow>
          if prices = [] then
            (Inr (JDict [(''error'', JStr ''Could not fetch gas prices'')]), w')
          else
            (case sort_key p_gwei prices of
               [] \<Rightarrow> (Inl IndexError, w')
             | p # ps \<Rightarrow>
                 (Inr (JDict [(''recommendation'', JStr (p_chain p)),
                              (''reason'', JStr (reason_text repr p)),
                              (''ranking'', JList (map price_json (p # ps)))]), w')))"

section \<open>Premium endpoints\<close>

text \<open>
  A request is seen through \<^verbatim>\<open>request.headers.get\<close> only. A handler answers with
  an explicit \<^verbatim>\<open>JSONResponse\<close> or returns a dictionary, which the framework sends
  with status 200. The value of the \<^verbatim>\<open>X-Payment-Required\<close> header is kept as the
  dictionary that is serialised into it.
\<close>

type_synonym request = "string \<Rightarrow> string option"

datatype response =
    JSONResponse (status_code: nat) (content: json) (headers: "(string \<times> json) list")
  | Returned json

text \<open>
  \<^verbatim>\<open>request.headers.get("X-PAYMENT") or request.headers.get("Payment")\<close>: the first
  value unless it is \<^verbatim>\<open>None\<close> or empty, else the second.
\<close>

definition payment_header :: "request \<Rightarrow> string option" where
  "payment_header req =
     (case req ''X-PAYMENT'' of
        None \<Rightarrow> req ''Payment''
      | Some v \<Rightarrow> if v = [] then req ''Payment'' else Some v)"

text \<open>\<^verbatim>\<open>not payment_header\<close>: the header is \<^verbatim>\<open>None\<close> or the empty string.\<close>

definition not_paid :: "request \<Rightarrow> bool" where
  "not_paid req = (case payment_header req of None \<Rightarrow> True | Some v \<Rightarrow> v = [])"

definition payment_required :: "string \<Rightarrow> string \<Rightarrow> exn + response" where
  "payment_required tier description =
     (case map_of PRICING tier of
        None \<Rightarrow> Inl KeyError
      | Some p \<Rightarrow>
          Inr (JSONResponse 402
                 (JDict [(''error'', JStr ''Payment required''), (''price'', JStr p),
                         (''currency'', JStr ''USDC''), (''network'', JStr NETWORK),
                         (''recipient'', JStr RECIPIENT_WALLET),
                         (''description'', JStr description)])
                 [(''X-Payment-Required'',
                   JDict [(''price'', JStr p), (''currency'', JStr ''USDC''),
                          (''network'', JStr NETWORK),
                          (''recipient'', JStr RECIPIENT_WALLET)])]))"

definition premium_all ::
  "request \<Rightarrow> (string \<times> chain_config) list \<Rightarrow> 'e transport \<Rightarrow> 'e world
     \<Rightarrow> (exn + response) \<times> 'e world" where
  "premium_all req tbl net w =
     (if not_paid req then (payment_required ''premium_all'' ''All chains gas prices'', w)
      else
        (case collect_results tbl net (map fst tbl) [] w of
           (Inl e, w') \<Rightarrow> (Inl e, w')
         | (Inr results, w') \<Rightarrow>
             (Inr (Returned (JDict [(''paid'', JBool True), (''data'', results_json results)])),
              w')))"

definition premium_recommend ::
  "request \<Rightarrow> (rat \<Rightarrow> string) \<Rightarrow> (string \<times> chain_config) list \<Rightarrow> 'e transport \<Rightarrow> 'e world
     \<Rightarrow> (exn + response) \<times> 'e world" where
  "premium_recommend req repr tbl net w =
     (if not_paid req then
        (payment_required ''premium_recommend'' ''Smart chain recommendation'', w)
      else
        (case collect_prices tbl net (map fst tbl) [] w of
           (Inl e, w') \<Rightarrow> (Inl e, w')
         | (Inr prices, w') \<Rightarrow>
             (let ranking = sort_key p_gwei prices
              in (Inr (Returned
                    (JDict [(''paid'', JBool True),
                            (''recommendation'',
                               (case ranking of [] \<Rightarrow> JNull | p # ps \<Rightarrow> JStr (p_chain p))),
                            (''reason'',
                               JStr (case ranking of
                                       [] \<Rightarrow> ''No data''
                                     | p # ps \<Rightarrow> reason_text repr p)),
                            (''ranking'', JList (map price_json ranking))])),
                  w'))))"

section \<open>Vocabulary of the specification\<close>


text \<open>
  The wei value of an attempt that succeeds: the response is a JSON object whose
  \<^verbatim>\<open>result\<close> is a string that \<^verbatim>\<open>int(_, 16)\<close> accepts, with a value that converts
  to a float. Every other outcome of an attempt is a soft failure.
\<close>

definition usable_wei :: "exn + json \<Rightarrow> int option" where
  "usable_wei out =
     (case out of
        Inr (JDict kvs) \<Rightarrow>
          (case map_of kvs ''result'' of
             Some (JStr s) \<Rightarrow>
               (case int16_of_str s of
                  Inr wei \<Rightarrow> (case float_of_int wei of Inr x \<Rightarrow> Some wei | Inl e \<Rightarrow> None)
                | Inl e \<Rightarrow> None)
           | _ \<Rightarrow> None)
      | _ \<Rightarrow> None)"

text \<open>The state of the network after the given endpoints have been tried in order.\<close>

fun env_after :: "'e transport \<Rightarrow> string list \<Rightarrow> 'e \<Rightarrow> 'e" where
  "env_after net [] e = e"
| "env_after net (u # us) e = env_after net us (snd (net u e))"

text \<open>Every one of the given endpoints, tried in order, is a soft failure.\<close>

fun all_soft :: "'e transport \<Rightarrow> string list \<Rightarrow> 'e \<Rightarrow> bool" where
  "all_soft net [] e = True"
| "all_soft net (u # us) e =
     (usable_wei (fst (net u e)) = None \<and> all_soft net us (snd (net u e)))"

text \<open>The reading for a wei value: converted to gwei, rounded and classified.\<close>

definition gas_reading :: "string \<Rightarrow> string \<Rightarrow> int \<Rightarrow> result" where
  "gas_reading chain nm wei =
     (let gwei = fl (fl (of_int wei) / 1000000000)
      in Reading chain nm wei (round4 gwei) (level_of gwei))"

text \<open>
  The fetches of the given chains, one after the other: each chain with the dictionary
  returned for it, and the world after the last fetch.
\<close>

fun fetch_each ::
  "(string \<times> chain_config) list \<Rightarrow> 'e transport \<Rightarrow> string list \<Rightarrow> 'e world
     \<Rightarrow> (string \<times> result) list \<times> 'e world" where
  "fetch_each tbl net [] w = ([], w)"
| "fetch_each tbl net (c # cs) w =
     (case fetch_gas_price tbl net c w of
        (Inl e, w') \<Rightarrow> ([], w')
      | (Inr r, w') \<Rightarrow>
          (case fetch_each tbl net cs w' of (rs, w'') \<Rightarrow> ((c, r) # rs, w'')))"

text \<open>The dictionaries that contain \<^verbatim>\<open>"gasPrice"\<close>: the successful fetches.\<close>

definition has_gasPrice :: "result \<Rightarrow> bool" where
  "has_gasPrice r = (case r of Reading c n wei g l \<Rightarrow> True | Failure fc m \<Rightarrow> False)"

text \<open>The ranking entries of the successful fetches, in the order of the fetches.\<close>

definition successful :: "(string \<times> result) list \<Rightarrow> price list" where
  "successful rs =
     map (\<lambda>(c, r). Price c (r_name r) (r_gwei r)) (filter (\<lambda>(c, r). has_gasPrice r) rs)"

text \<open>The outcome of an attempt depends on the URL only.\<close>

definition stateless :: "'e transport \<Rightarrow> bool" where
  "stateless net = (\<forall>u e e'. fst (net u e) = fst (net u e'))"

section \<open>Example configurations and networks\<close>

definition w0 :: "unit world" where
  "w0 = \<lparr>attempts = [], env = ()\<rparr>"

text \<open>A network on which every attempt raises.\<close>

definition net_down :: "unit transport" where
  "net_down u e = (Inl OSError, e)"

text \<open>
  Three chains: the endpoint of A answers 30 gwei, the first endpoint of B answers with a
  JSON-RPC error and its second with 10 gwei, the endpoint of C is unreachable.
\<close>

definition table_abc :: "(string \<times> chain_config) list" where
  "table_abc =
     [(''A'', ChainConfig ''Chain A'' [''a1'']),
      (''B'', ChainConfig ''Chain B'' [''b1'', ''b2'']),
      (''C'', ChainConfig ''Chain C'' [''c1''])]"

definition net_abc :: "unit transport" where
  "net_abc u e =
     (if u = ''a1'' then
        Inr (JDict [(''jsonrpc'', JStr ''2.0''), (''id'', JInt 1),
                    (''result'', JStr ''0x6fc23ac00'')])
      else if u = ''b1'' then
        Inr (JDict [(''jsonrpc'', JStr ''2.0''), (''id'', JInt 1),
                    (''error'', JDict [(''code'', JInt (- 32000)),
                                       (''message'', JStr ''rate limited'')])])
      else if u = ''b2'' then
        Inr (JDict [(''jsonrpc'', JStr ''2.0''), (''id'', JInt 1),
                    (''result'', JStr ''0x2540be400'')])
      else Inl OSError,
      e)"

text \<open>
  One chain with two endpoints: the first answers with a \<^verbatim>\<open>result\<close> of
  \<^verbatim>\<open>null\<close>, the second with 5 gwei.
\<close>

definition table_one :: "(string \<times> chain_config) list" where
  "table_one = [(''A'', ChainConfig ''Chain A'' [''a1'', ''a2''])]"

definition net_null :: "unit transport" where
  "net_null u e =
     (if u = ''a1'' then
        Inr (JDict [(''jsonrpc'', JStr ''2.0''), (''id'', JInt 1), (''result'', JNull)])
      else if u = ''a2'' then
        Inr (JDict [(''jsonrpc'', JStr ''2.0''), (''id'', JInt 1),
                    (''result'', JStr ''0x12a05f200'')])
      else Inl OSError,
      e)"



text \<open>A request carrying a payment proof, and the text of the floats of the examples.\<close>

definition req_paid :: request where
  "req_paid h = (if h = ''X-PAYMENT'' then Some ''proof'' else None)"

definition repr_example :: "rat \<Rightarrow> string" where
  "repr_example g = (if g = 10 then ''10.0'' else if g = 30 then ''30.0'' else ''5.0'')"

section \<open>Properties of the rounding\<close>

lemma round_half_even_of_int: "round_half_even (of_int n) = n"
  by (simp add: round_half_even_def)



lemma floor_minus_nonint:
  fixes x :: rat
  assumes "x \<noteq> of_int \<lfloor>x\<rfloor>"
  shows "\<lfloor>- x\<rfloor> = - \<lfloor>x\<rfloor> - 1"
proof -
  have "\<lceil>x\<rceil> = \<lfloor>x\<rfloor> + 1" using assms by (simp add: ceiling_altdef)
  then show ?thesis by (simp add: ceiling_def)
qed

lemma round_half_even_minus: "round_half_even (- x) = - round_half_even x"
proof (cases "x = of_int \<lfloor>x\<rfloor>")
  case True
  then obtain n where "x = of_int n" ..
  then have "- x = of_int (- n)" by simp
  then show ?thesis using \<open>x = of_int n\<close> round_half_even_of_int by metis
next
  case False
  note fm = floor_minus_nonint[OF False]
  have "- x - of_int (- \<lfloor>x\<rfloor> - 1) = 1 - (x - of_int \<lfloor>x\<rfloor>)" by simp
  then show ?thesis
    unfolding round_half_even_def Let_def fm
    by (simp add: algebra_simps)
qed

lemma bitlen_powi_bounds:
  assumes "0 < a"
  shows "2 powi (bitlen a - 1) \<le> (of_int a :: rat)" "(of_int a :: rat) < 2 powi (bitlen a)"
proof -
  from assms have ge1: "1 \<le> bitlen a" by (auto simp: bitlen_alt_def)
  from bitlen_bounds[OF assms]
  have "2 ^ nat (bitlen a - 1) \<le> a" "a < 2 ^ nat (bitlen a)" by simp_all
  then have "(of_int (2 ^ nat (bitlen a - 1)) :: rat) \<le> of_int a" "(of_int a :: rat) < of_int (2 ^ nat (bitlen a))"
    by (simp_all only: of_int_le_iff of_int_less_iff)
  then show "2 powi (bitlen a - 1) \<le> (of_int a :: rat)" "(of_int a :: rat) < 2 powi (bitlen a)"
    using ge1 by (simp_all add: power_int_def)
qed

lemma powi2_pos: "0 < (2::rat) powi n"
  by (simp add: zero_less_power_int)

lemma powi2_mono: "m \<le> n \<Longrightarrow> (2::rat) powi m \<le> 2 powi n"
  by (rule power_int_increasing) simp_all

lemma powi2_strict_mono: "m < n \<Longrightarrow> (2::rat) powi m < 2 powi n"
  by (rule power_int_strict_increasing) simp_all

lemma powi2_add: "(2::rat) powi (m + n) = 2 powi m * 2 powi n"
  by (simp add: power_int_add)

lemma powi2_diff: "(2::rat) powi (m - n) = 2 powi m / 2 powi n"
  by (simp add: power_int_diff)

lemma ilog2_bounds:
  assumes "0 < q"
  shows "2 powi (ilog2 q) \<le> q" "q < 2 powi (ilog2 q + 1)"
proof -
  obtain a b where ab: "quotient_of q = (a, b)" by (cases "quotient_of q")
  then have b: "0 < b" and q: "q = of_int a / of_int b"
    using quotient_of_denom_pos quotient_of_div by blast+
  with assms have a: "0 < a"
    by (simp add: zero_less_divide_iff)
  define d where "d = bitlen a - bitlen b"
  note la = bitlen_powi_bounds[OF a] and lb = bitlen_powi_bounds[OF b]
  have bpos: "0 < (of_int b :: rat)" using b by simp
  have up: "q < 2 powi (d + 1)"
  proof -
    have "of_int a < (2::rat) powi (bitlen a)" by (rule la(2))
    also have "\<dots> = 2 powi (d + 1) * 2 powi (bitlen b - 1)"
      by (simp add: d_def flip: powi2_add)
    also have "\<dots> \<le> 2 powi (d + 1) * of_int b"
      using lb(1) powi2_pos[of "d + 1"] by simp
    finally show ?thesis using bpos by (simp add: q pos_divide_less_eq)
  qed
  have lo: "2 powi (d - 1) \<le> q"
  proof -
    have "2 powi (d - 1) * of_int b \<le> 2 powi (d - 1) * (2::rat) powi (bitlen b)"
      using lb(2) powi2_pos[of "d - 1"] by simp
    also have "\<dots> = 2 powi (bitlen a - 1)"
      by (simp add: d_def flip: powi2_add)
    also have "\<dots> \<le> of_int a" by (rule la(1))
    finally show ?thesis using bpos by (simp add: q pos_le_divide_eq)
  qed
  have il: "ilog2 q = (if 2 powi d \<le> q then d else d - 1)"
    by (simp add: ilog2_def ab d_def)
  show "2 powi (ilog2 q) \<le> q" using lo by (simp add: il)
  show "q < 2 powi (ilog2 q + 1)" using up by (auto simp add: il not_le)
qed


lemma fl_zero: "fl 0 = 0" by (simp add: fl_def)

lemma fl_minus: "fl (- q) = - fl q"
  by (simp add: fl_def Let_def round_half_even_minus)





lemma fl_exact_pos:
  assumes "0 < m" "m < 2 ^ 53"
  shows "fl (of_int m * 2 powi k) = of_int m * 2 powi k"
proof -
  define q :: rat where "q = of_int m * 2 powi k"
  have q: "0 < q" using assms(1) powi2_pos[of k] by (simp add: q_def)
  define e where "e = ilog2 q - 52"
  have "(of_int m :: rat) < of_int (2 ^ 53)" using assms(2) by (simp only: of_int_less_iff)
  then have "q < 2 powi 53 * 2 powi k"
    using powi2_pos[of k] by (simp add: q_def)
  then have "q < 2 powi (53 + k)" by (simp add: powi2_add)
  with ilog2_bounds(1)[OF q] have "(2::rat) powi (ilog2 q) < 2 powi (53 + k)" by linarith
  then have "ilog2 q < 53 + k"
    using powi2_mono[of "53 + k" "ilog2 q"] by (cases "ilog2 q < 53 + k") simp_all
  then have ek: "0 \<le> k - e" unfolding e_def by simp
  have "q / 2 powi e = of_int m * (2 powi k / 2 powi e)" by (simp add: q_def)
  also have "2 powi k / (2::rat) powi e = 2 powi (k - e)"
    by (simp only: powi2_diff)
  also have "\<dots> = 2 ^ nat (k - e)" using ek by (simp add: power_int_def)
  finally have int: "q / 2 powi e = of_int (m * 2 ^ nat (k - e))" by simp
  have "fl q = of_int (round_half_even (q / 2 powi e)) * 2 powi e"
    using q by (simp add: fl_def e_def Let_def)
  also have "\<dots> = q / 2 powi e * 2 powi e"
    by (simp only: int round_half_even_of_int)
  also have "\<dots> = q" using powi2_pos[of e] by simp
  finally show ?thesis by (simp add: q_def)
qed

lemma fl_exact:
  assumes "\<bar>m\<bar> < 2 ^ 53"
  shows "fl (of_int m * 2 powi k) = of_int m * 2 powi k"
proof -
  consider "0 < m" | "m = 0" | "m < 0" by linarith
  then show ?thesis
  proof cases
    case 1
    with assms show ?thesis by (intro fl_exact_pos) simp_all
  next
    case 2
    then show ?thesis by (simp add: fl_zero)
  next
    case 3
    with assms have "fl (of_int (- m) * 2 powi k) = of_int (- m) * 2 powi k"
      by (intro fl_exact_pos) simp_all
    then show ?thesis by (simp add: fl_minus)
  qed
qed

lemma fl_of_int: "\<bar>m\<bar> < 2 ^ 53 \<Longrightarrow> fl (of_int m) = of_int m"
  using fl_exact[of m 0] by simp




section \<open>Classification and conversion\<close>







lemma truediv_1e9_Inr:
  "truediv_1e9 wei = Inr g \<Longrightarrow> g = fl (fl (of_int wei) / 1000000000)"
  by (auto simp: truediv_1e9_def float_of_int_def Let_def split: if_splits)

lemma float_of_int_small:
  assumes "\<bar>wei\<bar> < 2 ^ 53"
  shows "float_of_int wei = Inr (of_int wei)"
proof -
  have "\<bar>of_int wei :: rat\<bar> < of_int (2 ^ 53)"
    using assms by (simp only: of_int_less_iff flip: of_int_abs)
  then have "\<bar>of_int wei :: rat\<bar> < 2 ^ 1024" by simp
  then show ?thesis using fl_of_int[OF assms] by (simp add: float_of_int_def)
qed

lemma exact_conversion:
  assumes "\<bar>wei\<bar> < 2 ^ 53"
    and "fl (of_int wei / 1000000000) = of_int wei / 1000000000"
    and "wei mod 100000 = 0"
  shows "truediv_1e9 wei = Inr (of_int wei / 1000000000)"
    and "round4 (of_int wei / 1000000000) = of_int wei / 1000000000"
proof -
  show "truediv_1e9 wei = Inr (of_int wei / 1000000000)"
    using float_of_int_small[OF assms(1)] assms(2) by (simp add: truediv_1e9_def)
  from assms(3) obtain k where k: "wei = 100000 * k" by (auto simp: mod_eq_0_iff_dvd)
  have "of_int wei / 1000000000 * (10000 :: rat) = of_int k" by (simp add: k)
  then have r: "round_half_even (of_int wei / 1000000000 * 10000) = k"
    by (simp only: round_half_even_of_int)
  have e: "of_int k / (10000 :: rat) = of_int wei / 1000000000" by (simp add: k)
  show "round4 (of_int wei / 1000000000) = of_int wei / 1000000000"
    unfolding round4_def r e by (rule assms(2))
qed

section \<open>The failover loop\<close>

lemma map_of_in_keys: "(k \<in> set (map fst kvs)) = (map_of kvs k \<noteq> None)"
  by (simp add: map_of_eq_None_iff)

lemma handle_response_usable:
  assumes "usable_wei (Inr data) = Some wei"
  shows "handle_response chain nm data = Inr (Some (gas_reading chain nm wei))"
proof -
  from assms obtain kvs s x where d: "data = JDict kvs" and r: "map_of kvs ''result'' = Some (JStr s)"
    and i: "int16_of_str s = Inr wei" and f: "float_of_int wei = Inr x"
    by (auto simp: usable_wei_def split: json.splits option.splits sum.splits)
  from f have x: "x = fl (of_int wei)"
    by (auto simp: float_of_int_def Let_def split: if_splits)
  from r have "''result'' \<in> set (map fst kvs)" by (simp only: map_of_in_keys) simp
  then have "py_in ''result'' data = Inr True" by (simp add: py_in_def d)
  moreover have "py_getitem data ''result'' = Inr (JStr s)" by (simp add: py_getitem_def d r)
  moreover have "py_int16 (JStr s) = Inr wei" by (simp add: py_int16_def i)
  moreover have "truediv_1e9 wei = Inr (fl (fl (of_int wei) / 1000000000))"
    by (simp add: truediv_1e9_def f x)
  ultimately show ?thesis
    by (simp add: handle_response_def gas_reading_def Let_def)
qed

lemma handle_response_Some:
  assumes "handle_response chain nm data = Inr (Some r)"
  shows "\<exists>wei. usable_wei (Inr data) = Some wei \<and> r = gas_reading chain nm wei"
proof -
  from assms obtain v wei g where 1: "py_in ''result'' data = Inr True"
    and 2: "py_getitem data ''result'' = Inr v" and 3: "py_int16 v = Inr wei"
    and 4: "truediv_1e9 wei = Inr g" and r: "r = Reading chain nm wei (round4 g) (level_of g)"
    by (auto simp: handle_response_def split: sum.splits bool.splits)
  from 2 obtain kvs where d: "data = JDict kvs" and m: "map_of kvs ''result'' = Some v"
    by (auto simp: py_getitem_def split: json.splits option.splits)
  from 3 obtain s where v: "v = JStr s" and i: "int16_of_str s = Inr wei"
    by (auto simp: py_int16_def split: json.splits)
  from 4 obtain x where f: "float_of_int wei = Inr x"
    by (auto simp: truediv_1e9_def split: sum.splits)
  have "usable_wei (Inr data) = Some wei" by (simp add: usable_wei_def d m v i f)
  moreover from truediv_1e9_Inr[OF 4] r have "r = gas_reading chain nm wei"
    by (simp add: gas_reading_def Let_def)
  ultimately show ?thesis by blast
qed

lemma attempt_usable:
  assumes "usable_wei (fst (net rpc (env w))) = Some wei"
  shows "attempt net chain nm rpc w =
           (Inr (Some (gas_reading chain nm wei)),
            \<lparr>attempts = attempts w @ [rpc], env = snd (net rpc (env w))\<rparr>)"
proof -
  obtain out e' where n: "net rpc (env w) = (out, e')" by (cases "net rpc (env w)")
  with assms obtain data where out: "out = Inr data"
    by (cases out) (auto simp: usable_wei_def)
  with assms n have "handle_response chain nm data = Inr (Some (gas_reading chain nm wei))"
    by (intro handle_response_usable) simp
  then show ?thesis by (simp add: attempt_def post_eth_gasPrice_def n out)
qed

lemma attempt_soft:
  assumes "usable_wei (fst (net rpc (env w))) = None"
  shows "\<exists>x. attempt net chain nm rpc w =
           (x, \<lparr>attempts = attempts w @ [rpc], env = snd (net rpc (env w))\<rparr>) \<and>
           (\<forall>r. x \<noteq> Inr (Some r))"
proof -
  obtain out e' where n: "net rpc (env w) = (out, e')" by (cases "net rpc (env w)")
  show ?thesis
  proof (cases out)
    case (Inl e)
    then show ?thesis by (simp add: attempt_def post_eth_gasPrice_def n)
  next
    case (Inr data)
    have "handle_response chain nm data \<noteq> Inr (Some r)" for r
      using handle_response_Some[of chain nm data r] assms n Inr by auto
    then show ?thesis by (simp add: attempt_def post_eth_gasPrice_def n Inr)
  qed
qed

lemma try_rpcs_soft_step:
  assumes "usable_wei (fst (net rpc (env w))) = None"
  shows "try_rpcs net chain nm (rpc # rest) w =
           try_rpcs net chain nm rest \<lparr>attempts = attempts w @ [rpc], env = snd (net rpc (env w))\<rparr>"
proof -
  from attempt_soft[where net=net and rpc=rpc and w=w and chain=chain and nm=nm, OF assms]
  obtain x where
    a: "attempt net chain nm rpc w = (x, \<lparr>attempts = attempts w @ [rpc], env = snd (net rpc (env w))\<rparr>)"
    and x: "\<forall>r. x \<noteq> Inr (Some r)" by blast
  show ?thesis
  proof (cases x)
    case (Inl e)
    then show ?thesis by (simp add: a)
  next
    case (Inr opt)
    with x have "opt = None" by (cases opt) auto
    with Inr show ?thesis by (simp add: a)
  qed
qed

lemma try_rpcs_skip:
  assumes "all_soft net pre (env w)"
  shows "try_rpcs net chain nm (pre @ rest) w =
           try_rpcs net chain nm rest \<lparr>attempts = attempts w @ pre, env = env_after net pre (env w)\<rparr>"
  using assms
proof (induction pre arbitrary: w)
  case Nil
  then show ?case by (cases w) simp
next
  case (Cons u us)
  from Cons.prems have s: "usable_wei (fst (net u (env w))) = None"
    and a: "all_soft net us (snd (net u (env w)))" by simp_all
  let ?w = "\<lparr>attempts = attempts w @ [u], env = snd (net u (env w))\<rparr>"
  have "try_rpcs net chain nm ((u # us) @ rest) w = try_rpcs net chain nm (us @ rest) ?w"
    using try_rpcs_soft_step[where net=net and rpc=u and w=w, OF s] by simp
  also have "\<dots> = try_rpcs net chain nm rest \<lparr>attempts = attempts ?w @ us, env = env_after net us (env ?w)\<rparr>"
    using a by (intro Cons.IH) simp
  finally show ?case by simp
qed

lemma try_rpcs_first_usable:
  assumes "all_soft net pre (env w)"
    and "usable_wei (fst (net u (env_after net pre (env w)))) = Some wei"
  shows "try_rpcs net chain nm (pre @ u # post) w =
           (Inr (gas_reading chain nm wei),
            \<lparr>attempts = attempts w @ pre @ [u], env = env_after net (pre @ [u]) (env w)\<rparr>)"
proof -
  let ?w = "\<lparr>attempts = attempts w @ pre, env = env_after net pre (env w)\<rparr>"
  have e: "env_after net (pre @ [u]) e = snd (net u (env_after net pre e))" for e
    by (induction pre arbitrary: e) simp_all
  have "usable_wei (fst (net u (env ?w))) = Some wei" using assms(2) by simp
  from attempt_usable[where net=net and rpc=u and w="?w" and chain=chain and nm=nm, OF this]
  have "try_rpcs net chain nm (u # post) ?w =
          (Inr (gas_reading chain nm wei), \<lparr>attempts = attempts ?w @ [u], env = snd (net u (env ?w))\<rparr>)"
    by simp
  then show ?thesis by (simp add: try_rpcs_skip[OF assms(1)] e)
qed

lemma try_rpcs_all_soft:
  assumes "all_soft net us (env w)"
  shows "try_rpcs net chain nm us w =
           (Inr (Failure (Some chain) ''All RPCs failed''),
            \<lparr>attempts = attempts w @ us, env = env_after net us (env w)\<rparr>)"
  using try_rpcs_skip[OF assms, of chain nm "[]"] by simp

text \<open>What the loop can return at all.\<close>

lemma try_rpcs_cases:
  "\<exists>w'. try_rpcs net chain nm us w = (Inr (Failure (Some chain) ''All RPCs failed''), w') \<and> all_soft net us (env w)
     \<or> (\<exists>wei. try_rpcs net chain nm us w = (Inr (gas_reading chain nm wei), w') \<and> \<not> all_soft net us (env w)
            \<and> (\<exists>x. float_of_int wei = Inr x))"
proof (induction us arbitrary: w)
  case Nil
  then show ?case by simp
next
  case (Cons u us)
  show ?case
  proof (cases "usable_wei (fst (net u (env w)))")
    case None
    let ?w = "\<lparr>attempts = attempts w @ [u], env = snd (net u (env w))\<rparr>"
    have eq: "try_rpcs net chain nm (u # us) w = try_rpcs net chain nm us ?w"
      by (rule try_rpcs_soft_step[where net=net and rpc=u and w=w, OF None])
    from Cons.IH[of ?w] show ?thesis
      unfolding eq by (simp add: None)
  next
    case (Some wei)
    then have "\<exists>x. float_of_int wei = Inr x"
      by (auto simp: usable_wei_def split: sum.splits json.splits option.splits)
    with Some attempt_usable[where net=net and rpc=u and w=w and chain=chain and nm=nm, OF Some]
    show ?thesis by auto
  qed
qed


lemma fetch_known:
  "map_of tbl chain = Some cfg \<Longrightarrow>
     fetch_gas_price tbl net chain w = try_rpcs net chain (name cfg) (rpcs cfg) w"
  by (simp add: fetch_gas_price_def)

section \<open>The aggregation loops\<close>

lemma has_gasPrice_json: "py_in ''gasPrice'' (result_json r) = Inr (has_gasPrice r)"
  by (cases r rule: result_json.cases) (simp_all add: py_in_def has_gasPrice_def)

lemma fetch_Inr: "\<exists>r w'. fetch_gas_price tbl net chain w = (Inr r, w')"
proof (cases "map_of tbl chain")
  case None
  then show ?thesis by (simp add: fetch_gas_price_def)
next
  case (Some cfg)
  from try_rpcs_cases[of net chain "name cfg" "rpcs cfg" w] show ?thesis
    unfolding fetch_known[OF Some] by blast
qed

lemma fetch_shape:
  assumes "map_of tbl chain = Some cfg" and "fetch_gas_price tbl net chain w = (Inr r, w')"
  shows "r = Failure (Some chain) ''All RPCs failed'' \<or> (\<exists>wei. r = gas_reading chain (name cfg) wei)"
  using try_rpcs_cases[of net chain "name cfg" "rpcs cfg" w] assms(2)
  unfolding fetch_known[OF assms(1)] by auto

lemma fetch_each_keys: "map fst (fst (fetch_each tbl net cs w)) = cs"
proof (induction cs arbitrary: w)
  case Nil
  then show ?case by simp
next
  case (Cons c cs)
  obtain r w' where f: "fetch_gas_price tbl net c w = (Inr r, w')" using fetch_Inr by blast
  obtain rs w'' where e: "fetch_each tbl net cs w' = (rs, w'')" by (cases "fetch_each tbl net cs w'")
  from Cons.IH[of w'] e show ?case by (simp add: f)
qed

lemma update_fresh: "k \<notin> fst ` set al \<Longrightarrow> AList.update k v al = al @ [(k, v)]"
  by (induction al) auto

lemma collect_results_eq:
  assumes "distinct cs" and "set cs \<inter> fst ` set acc = {}"
  shows "collect_results tbl net cs acc w =
           (Inr (acc @ fst (fetch_each tbl net cs w)), snd (fetch_each tbl net cs w))"
  using assms
proof (induction cs arbitrary: acc w)
  case Nil
  then show ?case by simp
next
  case (Cons c cs)
  obtain r w' where f: "fetch_gas_price tbl net c w = (Inr r, w')" using fetch_Inr by blast
  obtain rs w'' where e: "fetch_each tbl net cs w' = (rs, w'')" by (cases "fetch_each tbl net cs w'")
  from Cons.prems have fresh: "c \<notin> fst ` set acc" by auto
  from Cons.prems have "distinct cs" "set cs \<inter> fst ` set (acc @ [(c, r)]) = {}" by auto
  from Cons.IH[OF this, of w'] show ?case
    by (simp add: f e update_fresh[OF fresh])
qed

lemma collect_prices_eq:
  "collect_prices tbl net cs acc w =
     (Inr (acc @ successful (fst (fetch_each tbl net cs w))), snd (fetch_each tbl net cs w))"
proof (induction cs arbitrary: acc w)
  case Nil
  then show ?case by (simp add: successful_def)
next
  case (Cons c cs)
  obtain r w' where f: "fetch_gas_price tbl net c w = (Inr r, w')" using fetch_Inr by blast
  obtain rs w'' where e: "fetch_each tbl net cs w' = (rs, w'')" by (cases "fetch_each tbl net cs w'")
  show ?case
  proof (cases r)
    case (Reading c' n wei g l)
    with Cons.IH[of "acc @ [Price c n g]" w'] show ?thesis
      by (simp add: f e successful_def has_gasPrice_def)
  next
    case (Failure fc m)
    with Cons.IH[of acc w'] show ?thesis
      by (simp add: f e successful_def has_gasPrice_def)
  qed
qed

lemma attempt_stateless:
  assumes "stateless net"
  shows "fst (attempt net chain nm rpc w) = fst (attempt net chain nm rpc w')"
proof -
  from assms have "fst (net rpc (env w)) = fst (net rpc (env w'))" by (simp add: stateless_def)
  then show ?thesis
    by (cases "net rpc (env w)"; cases "net rpc (env w')")
       (auto simp: attempt_def post_eth_gasPrice_def split: sum.splits)
qed

lemma try_rpcs_stateless:
  assumes "stateless net"
  shows "fst (try_rpcs net chain nm us w) = fst (try_rpcs net chain nm us w')"
proof (induction us arbitrary: w w')
  case Nil
  then show ?case by simp
next
  case (Cons u us)
  obtain x w1 where a: "attempt net chain nm u w = (x, w1)" by (cases "attempt net chain nm u w")
  obtain y w2 where b: "attempt net chain nm u w' = (y, w2)" by (cases "attempt net chain nm u w'")
  from attempt_stateless[OF assms, of chain nm u w w'] a b have xy: "y = x" by simp
  show ?case
  proof (cases x)
    case (Inl e)
    with Cons.IH[of w1 w2] show ?thesis by (simp add: a b xy)
  next
    case (Inr opt)
    with Cons.IH[of w1 w2] show ?thesis by (cases opt) (simp_all add: a b xy)
  qed
qed

lemma fetch_stateless:
  assumes "stateless net"
  shows "fst (fetch_gas_price tbl net chain w) = fst (fetch_gas_price tbl net chain w')"
  using try_rpcs_stateless[OF assms]
  by (cases "map_of tbl chain") (simp_all add: fetch_gas_price_def)

lemma fetch_each_entries:
  assumes "(c, r) \<in> set (fst (fetch_each tbl net cs w))"
  shows "\<exists>w1 w2. fetch_gas_price tbl net c w1 = (Inr r, w2)"
  using assms
proof (induction cs arbitrary: w)
  case Nil
  then show ?case by simp
next
  case (Cons a cs)
  obtain r' w' where f: "fetch_gas_price tbl net a w = (Inr r', w')" using fetch_Inr by blast
  obtain rs w'' where e: "fetch_each tbl net cs w' = (rs, w'')" by (cases "fetch_each tbl net cs w'")
  from Cons.prems have "(c, r) = (a, r') \<or> (c, r) \<in> set (fst (fetch_each tbl net cs w'))"
    by (simp add: f e)
  then show ?case
  proof
    assume "(c, r) = (a, r')"
    with f show ?thesis by blast
  next
    assume "(c, r) \<in> set (fst (fetch_each tbl net cs w'))"
    then show ?thesis by (rule Cons.IH)
  qed
qed

lemma sort_key_nonempty: "xs \<noteq> [] \<Longrightarrow> sort_key f xs \<noteq> []"
  by (metis length_sort length_0_conv)

lemma gas_recommend_eq:
  assumes "fetch_each tbl net (map fst tbl) w = (results, w')"
    and "sort_key p_gwei (successful results) = p # ps"
  shows "gas_recommend repr tbl net w =
           (Inr (JDict [(''recommendation'', JStr (p_chain p)),
                        (''reason'', JStr (reason_text repr p)),
                        (''ranking'', JList (map price_json (p # ps)))]), w')"
proof -
  from assms(2) have "successful results \<noteq> []" by auto
  then show ?thesis
    using collect_prices_eq[of tbl net "map fst tbl" "[]" w]
    by (simp add: gas_recommend_def assms)
qed

lemma premium_recommend_eq:
  assumes "\<not> not_paid req"
    and "fetch_each tbl net (map fst tbl) w = (results, w')"
  shows "premium_recommend req repr tbl net w =
           (Inr (Returned
              (JDict [(''paid'', JBool True),
                      (''recommendation'',
                         (case sort_key p_gwei (successful results) of
                            [] \<Rightarrow> JNull | p # ps \<Rightarrow> JStr (p_chain p))),
                      (''reason'',
                         JStr (case sort_key p_gwei (successful results) of
                                 [] \<Rightarrow> ''No data'' | p # ps \<Rightarrow> reason_text repr p)),
                      (''ranking'', JList (map price_json (sort_key p_gwei (successful results))))])),
            w')"
  using collect_prices_eq[of tbl net "map fst tbl" "[]" w]
  by (simp add: premium_recommend_def assms Let_def)

lemma collect_results_Inr: "\<exists>rs w'. collect_results tbl net cs acc w = (Inr rs, w')"
proof (induction cs arbitrary: acc w)
  case Nil
  then show ?case by simp
next
  case (Cons c cs)
  obtain r w' where f: "fetch_gas_price tbl net c w = (Inr r, w')" using fetch_Inr by blast
  from Cons.IH[of "AList.update c r acc" w'] show ?case by (simp add: f)
qed

section \<open>The examples, evaluated\<close>

lemma fetch_one:
  "fetch_gas_price table_one net_null ''A'' w0
     = (Inr (Reading ''A'' ''Chain A'' 5000000000 5 ''medium''),
        \<lparr>attempts = [''a1'', ''a2''], env = ()\<rparr>)"
  by code_simp

lemma fetch_each_abc:
  "fetch_each table_abc net_abc (map fst table_abc) w0 =
     ([(''A'', Reading ''A'' ''Chain A'' 30000000000 30 ''high''),
       (''B'', Reading ''B'' ''Chain B'' 10000000000 10 ''medium''),
       (''C'', Failure (Some ''C'') ''All RPCs failed'')],
      \<lparr>attempts = [''a1'', ''b1'', ''b2'', ''c1''], env = ()\<rparr>)"
  by code_simp

lemma fetch_each_down:
  "fetch_each table_abc net_down (map fst table_abc) w0 =
     ([(''A'', Failure (Some ''A'') ''All RPCs failed''),
       (''B'', Failure (Some ''B'') ''All RPCs failed''),
       (''C'', Failure (Some ''C'') ''All RPCs failed'')],
      \<lparr>attempts = [''a1'', ''b1'', ''b2'', ''c1''], env = ()\<rparr>)"
  by code_simp

lemma successful_abc:
  "successful [(''A'', Reading ''A'' ''Chain A'' 30000000000 30 ''high''),
               (''B'', Reading ''B'' ''Chain B'' 10000000000 10 ''medium''),
               (''C'', Failure (Some ''C'') ''All RPCs failed'')]
     = [Price ''A'' ''Chain A'' 30, Price ''B'' ''Chain B'' 10]"
  by (simp add: successful_def has_gasPrice_def)

lemma successful_down:
  "successful [(''A'', Failure (Some ''A'') ''All RPCs failed''),
               (''B'', Failure (Some ''B'') ''All RPCs failed''),
               (''C'', Failure (Some ''C'') ''All RPCs failed'')] = []"
  by (simp add: successful_def has_gasPrice_def)

lemma req_paid_paid: "\<not> not_paid req_paid"
  by (simp add: not_paid_def payment_header_def req_paid_def)

lemma distinct_abc: "distinct (map fst table_abc)"
  by (simp add: table_abc_def)

lemma gas_recommend_abc:
  "gas_recommend repr_example table_abc net_abc w0 =
       (Inr (JDict [(''recommendation'', JStr ''B''),
                    (''reason'', JStr ''Chain B has lowest gas at 10.0 gwei''),
                    (''ranking'',
                       JList [JDict [(''chain'', JStr ''B''), (''name'', JStr ''Chain B''),
                                     (''gwei'', JFloat (Finite 10))],
                              JDict [(''chain'', JStr ''A''), (''name'', JStr ''Chain A''),
                                     (''gwei'', JFloat (Finite 30))]])]),
        \<lparr>attempts = [''a1'', ''b1'', ''b2'', ''c1''], env = ()\<rparr>)"
  using gas_recommend_eq[OF fetch_each_abc, of "Price ''B'' ''Chain B'' 10" "[Price ''A'' ''Chain A'' 30]" repr_example]
  by (simp add: successful_abc price_json_def reason_text_def repr_example_def)

lemma gas_all_abc:
  "gas_all table_abc net_abc w0 =
       (Inr (JDict
          [(''A'', JDict [(''chain'', JStr ''A''), (''name'', JStr ''Chain A''),
                          (''gasPrice'', JDict [(''wei'', JInt 30000000000), (''gwei'', JFloat (Finite 30))]),
                          (''level'', JStr ''high'')]),
           (''B'', JDict [(''chain'', JStr ''B''), (''name'', JStr ''Chain B''),
                          (''gasPrice'', JDict [(''wei'', JInt 10000000000), (''gwei'', JFloat (Finite 10))]),
                          (''level'', JStr ''medium'')]),
           (''C'', JDict [(''chain'', JStr ''C''), (''error'', JStr ''All RPCs failed'')])]),
        \<lparr>attempts = [''a1'', ''b1'', ''b2'', ''c1''], env = ()\<rparr>)"
  using collect_results_eq[OF distinct_abc, of "[]" table_abc net_abc w0]
  by (simp add: gas_all_def results_json_def fetch_each_abc)

lemma gas_recommend_down:
  "gas_recommend repr_example table_abc net_down w0 =
       (Inr (JDict [(''error'', JStr ''Could not fetch gas prices'')]),
        \<lparr>attempts = [''a1'', ''b1'', ''b2'', ''c1''], env = ()\<rparr>)"
  using collect_prices_eq[of table_abc net_down "map fst table_abc" "[]" w0]
  by (simp add: gas_recommend_def fetch_each_down successful_down)

lemma premium_recommend_down:
  "premium_recommend req_paid repr_example table_abc net_down w0 =
       (Inr (Returned (JDict [(''paid'', JBool True), (''recommendation'', JNull),
                              (''reason'', JStr ''No data''), (''ranking'', JList [])])),
        \<lparr>attempts = [''a1'', ''b1'', ''b2'', ''c1''], env = ()\<rparr>)"
  using premium_recommend_eq[OF req_paid_paid fetch_each_down, of repr_example]
  by (simp add: successful_down)










section \<open>Claims about \<^verbatim>\<open>fetch_gas_price\<close>\<close>

text \<open>
  Claim C1, as stated, fails. The first endpoint of chain A answers with a JSON object
  that contains a \<^verbatim>\<open>result\<close> field, of value \<^verbatim>\<open>null\<close>; \<^verbatim>\<open>int(None, 16)\<close>
  raises \<^verbatim>\<open>TypeError\<close> inside the \<^verbatim>\<open>try\<close>, the endpoint is skipped and the
  second endpoint is tried.
\<close>

theorem result_field_null_is_skipped:
  "fst (net_null ''a1'' ()) = Inr (JDict [(''jsonrpc'', JStr ''2.0''), (''id'', JInt 1), (''result'', JNull)])
   \<and> py_in ''result'' (JDict [(''jsonrpc'', JStr ''2.0''), (''id'', JInt 1), (''result'', JNull)]) = Inr True
   \<and> fetch_gas_price table_one net_null ''A'' w0
       = (Inr (Reading ''A'' ''Chain A'' 5000000000 5 ''medium''), \<lparr>attempts = [''a1'', ''a2''], env = ()\<rparr>)
   \<and> attempts (snd (fetch_gas_price table_one net_null ''A'' w0)) \<noteq> [''a1'']"
  by (simp add: fetch_one net_null_def py_in_def)

text \<open>
  Claim C1, amended. For a known chain the endpoints are tried in configured order. At
  the first endpoint whose response is a JSON object with a \<^verbatim>\<open>result\<close> field that is
  a string accepted by \<^verbatim>\<open>int(_, 16)\<close> (and whose value converts to a float), the
  value is decoded, converted to gwei, rounded and classified, and the reading is
  returned at once: the endpoints after it are not attempted. Every endpoint before it,
  whose attempt raised, whose response has no \<^verbatim>\<open>result\<close> field or whose
  \<^verbatim>\<open>result\<close> does not decode, has been attempted once and skipped.
\<close>

theorem first_usable_endpoint_wins:
  assumes "map_of tbl chain = Some cfg"
    and "rpcs cfg = pre @ u # post"
    and "all_soft net pre (env w)"
    and "usable_wei (fst (net u (env_after net pre (env w)))) = Some wei"
  shows "fetch_gas_price tbl net chain w =
           (Inr (Reading chain (name cfg) wei
                   (round4 (fl (fl (of_int wei) / 1000000000)))
                   (level_of (fl (fl (of_int wei) / 1000000000)))),
            \<lparr>attempts = attempts w @ pre @ [u], env = env_after net (pre @ [u]) (env w)\<rparr>)"
  using try_rpcs_first_usable[OF assms(3,4), of chain "name cfg" post]
  by (simp add: fetch_known[OF assms(1)] assms(2) gas_reading_def Let_def)

text \<open>
  Witness for C1: chain B of the example, whose first endpoint answers with a JSON-RPC
  error and whose second endpoint answers 10 gwei.
\<close>

theorem first_usable_endpoint_wins_witness:
  "map_of table_abc ''B'' = Some (ChainConfig ''Chain B'' [''b1'', ''b2''])
   \<and> rpcs (ChainConfig ''Chain B'' [''b1'', ''b2'']) = [''b1''] @ ''b2'' # []
   \<and> all_soft net_abc [''b1''] (env w0)
   \<and> usable_wei (fst (net_abc ''b2'' (env_after net_abc [''b1''] (env w0)))) = Some 10000000000
   \<and> fetch_gas_price table_abc net_abc ''B'' w0
       = (Inr (Reading ''B'' ''Chain B'' 10000000000 10 ''medium''),
          \<lparr>attempts = [''b1'', ''b2''], env = ()\<rparr>)"
proof -
  have 1: "map_of table_abc ''B'' = Some (ChainConfig ''Chain B'' [''b1'', ''b2''])" by code_simp
  have 2: "rpcs (ChainConfig ''Chain B'' [''b1'', ''b2'']) = [''b1''] @ ''b2'' # []" by simp
  have 3: "all_soft net_abc [''b1''] (env w0)" by code_simp
  have 4: "usable_wei (fst (net_abc ''b2'' (env_after net_abc [''b1''] (env w0)))) = Some 10000000000"
    by code_simp
  have 5: "round4 (fl (fl (of_int 10000000000) / 1000000000)) = 10" by code_simp
  have 6: "level_of (fl (fl (of_int 10000000000) / 1000000000)) = ''medium''" by code_simp
  have 7: "env_after net_abc ([''b1''] @ [''b2'']) (env w0) = ()" by simp
  have 8: "attempts w0 @ [''b1''] @ [''b2''] = [''b1'', ''b2'']" by (simp add: w0_def)
  from first_usable_endpoint_wins[OF 1 2 3 4, of ] show ?thesis
    unfolding 5 6 7 8 using 1 2 3 4 by simp
qed




text \<open>
  Claim C5, as stated, fails. For the unknown chain \<^verbatim>\<open>solana\<close> the dictionary
  returned is \<^verbatim>\<open>{"error": "Unknown chain: solana"}\<close>: it has no \<^verbatim>\<open>chain\<close> entry,
  unlike the failure returned when all endpoints of a known chain have failed.
\<close>

theorem unknown_chain_no_chain_field:
  "fetch_gas_price CHAINS net_down ''solana'' w0 = (Inr (Failure None ''Unknown chain: solana''), w0)
   \<and> fst (fetch_gas_price CHAINS net_down ''solana'' w0)
        \<noteq> Inr (Failure (Some ''solana'') ''Unknown chain: solana'')
   \<and> py_getitem (result_json (Failure None ''Unknown chain: solana'')) ''chain'' = Inl KeyError"
  by code_simp

text \<open>
  Claim C5, amended. For a chain identifier that is not in the configuration table,
  \<^verbatim>\<open>fetch_gas_price\<close> returns at once the failure that consists of the message
  \<^verbatim>\<open>Unknown chain: <chainId>\<close> alone (the identifier appears in the message only),
  and the world is unchanged: no endpoint is attempted.
\<close>

theorem unknown_chain_failure:
  assumes "map_of tbl chain = None"
  shows "fetch_gas_price tbl net chain w = (Inr (Failure None (''Unknown chain: '' @ chain)), w)"
  using assms by (simp add: fetch_gas_price_def)

text \<open>Witness for C5: \<^verbatim>\<open>solana\<close> is not among the configured chains.\<close>

theorem unknown_chain_failure_witness:
  "map_of CHAINS ''solana'' = None
   \<and> fetch_gas_price CHAINS net_down ''solana'' w0
       = (Inr (Failure None ''Unknown chain: solana''), w0)
   \<and> attempts (snd (fetch_gas_price CHAINS net_down ''solana'' w0)) = []"
proof -
  have h: "map_of CHAINS ''solana'' = None" by code_simp
  from h unknown_chain_failure[OF h, of net_down w0] show ?thesis by (simp add: w0_def)
qed

text \<open>
  Claim C7. For a known chain, if every configured endpoint, tried in order, is a soft
  failure, then \<^verbatim>\<open>fetch_gas_price\<close> returns the failure with the chain and the
  message \<^verbatim>\<open>All RPCs failed\<close>, after one attempt on each endpoint; in every other
  case a reading has been produced.
\<close>

theorem all_rpcs_failed:
  assumes "map_of tbl chain = Some cfg"
  shows "(all_soft net (rpcs cfg) (env w) \<longrightarrow>
            fetch_gas_price tbl net chain w =
              (Inr (Failure (Some chain) ''All RPCs failed''),
               \<lparr>attempts = attempts w @ rpcs cfg, env = env_after net (rpcs cfg) (env w)\<rparr>))
       \<and> (\<not> all_soft net (rpcs cfg) (env w) \<longrightarrow>
            (\<exists>wei. fst (fetch_gas_price tbl net chain w) = Inr (gas_reading chain (name cfg) wei)))"
proof (intro conjI impI)
  assume "all_soft net (rpcs cfg) (env w)"
  from try_rpcs_all_soft[OF this, of chain "name cfg"]
  show "fetch_gas_price tbl net chain w =
          (Inr (Failure (Some chain) ''All RPCs failed''),
           \<lparr>attempts = attempts w @ rpcs cfg, env = env_after net (rpcs cfg) (env w)\<rparr>)"
    by (simp add: fetch_known[OF assms])
next
  assume "\<not> all_soft net (rpcs cfg) (env w)"
  with try_rpcs_cases[of net chain "name cfg" "rpcs cfg" w]
  show "\<exists>wei. fst (fetch_gas_price tbl net chain w) = Inr (gas_reading chain (name cfg) wei)"
    unfolding fetch_known[OF assms] by auto
qed

text \<open>Witness for C7: chain \<^verbatim>\<open>base\<close> on a network where every attempt raises.\<close>

theorem all_rpcs_failed_witness:
  "map_of CHAINS ''base''
     = Some (ChainConfig ''Base'' [''https://base.publicnode.com'', ''https://base.drpc.org'', ''https://1rpc.io/base''])
   \<and> all_soft net_down [''https://base.publicnode.com'', ''https://base.drpc.org'', ''https://1rpc.io/base''] (env w0)
   \<and> fetch_gas_price CHAINS net_down ''base'' w0 =
       (Inr (Failure (Some ''base'') ''All RPCs failed''),
        \<lparr>attempts = [''https://base.publicnode.com'', ''https://base.drpc.org'', ''https://1rpc.io/base''],
           env = ()\<rparr>)"
proof -
  let ?cfg = "ChainConfig ''Base'' [''https://base.publicnode.com'', ''https://base.drpc.org'', ''https://1rpc.io/base'']"
  have 1: "map_of CHAINS ''base'' = Some ?cfg" by code_simp
  have 2: "all_soft net_down (rpcs ?cfg) (env w0)" by code_simp
  from all_rpcs_failed[OF 1, of net_down w0] 1 2 show ?thesis by (simp add: w0_def)
qed



text \<open>
  Claim C10. Whatever the network does at each attempt (an exception, or any parsed
  JSON value), \<^verbatim>\<open>fetch_gas_price\<close> returns a result dictionary: no exception
  reaches its caller.
\<close>

theorem fetch_gas_price_total:
  "\<exists>r w'. fetch_gas_price tbl net chain w = (Inr r, w')"
proof (cases "map_of tbl chain")
  case None
  then show ?thesis by (simp add: fetch_gas_price_def)
next
  case (Some cfg)
  from try_rpcs_cases[of net chain "name cfg" "rpcs cfg" w] show ?thesis
    unfolding fetch_known[OF Some] by blast
qed

section \<open>Claims about the aggregate operations\<close>

text \<open>
  Claim C3. Let \<open>results\<close> be the fetches of the configured chains, in order. When at
  least one of them succeeded, \<^verbatim>\<open>gas_recommend\<close> returns a ranking that holds
  exactly the entries of the successful fetches (no failed chain), ascending by gwei,
  entries of equal gwei in the order of the chains (the sort is stable), and recommends
  the chain of the first entry. The witness is the example of the specification: A at 30
  gwei, B at 10 gwei, C failed.
\<close>

theorem cheapest_chain_recommended:
  assumes "fetch_each tbl net (map fst tbl) w = (results, w')"
    and "successful results \<noteq> []"
  shows "\<exists>ranking.
           gas_recommend repr tbl net w =
             (Inr (JDict [(''recommendation'', JStr (p_chain (hd ranking))),
                          (''reason'', JStr (reason_text repr (hd ranking))),
                          (''ranking'', JList (map price_json ranking))]), w')
         \<and> ranking \<noteq> []
         \<and> set ranking = set (successful results)
         \<and> length ranking = length (successful results)
         \<and> sorted (map p_gwei ranking)
         \<and> (\<forall>k. filter (\<lambda>p. p_gwei p = k) ranking
                 = filter (\<lambda>p. p_gwei p = k) (successful results))"
proof -
  let ?ranking = "sort_key p_gwei (successful results)"
  from sort_key_nonempty[OF assms(2)] obtain p ps where r: "?ranking = p # ps"
    by (cases ?ranking) auto
  from gas_recommend_eq[OF assms(1) r, of repr]
  have "gas_recommend repr tbl net w =
          (Inr (JDict [(''recommendation'', JStr (p_chain (hd ?ranking))),
                       (''reason'', JStr (reason_text repr (hd ?ranking))),
                       (''ranking'', JList (map price_json ?ranking))]), w')"
    by (simp add: r)
  moreover have "?ranking \<noteq> []" by (simp add: r)
  moreover have "set ?ranking = set (successful results)" by simp
  moreover have "length ?ranking = length (successful results)" by simp
  moreover have "sorted (map p_gwei ?ranking)" by (rule sorted_sort_key)
  moreover have "\<forall>k. filter (\<lambda>p. p_gwei p = k) ?ranking
                   = filter (\<lambda>p. p_gwei p = k) (successful results)"
    by (simp add: sort_key_stable)
  ultimately show ?thesis by blast
qed

text \<open>
  Witness for C3: the recommendation is B and the ranking is B (10 gwei), A (30 gwei),
  without C.
\<close>

theorem cheapest_chain_recommended_witness:
  "fetch_each table_abc net_abc (map fst table_abc) w0 =
     ([(''A'', Reading ''A'' ''Chain A'' 30000000000 30 ''high''),
       (''B'', Reading ''B'' ''Chain B'' 10000000000 10 ''medium''),
       (''C'', Failure (Some ''C'') ''All RPCs failed'')],
      \<lparr>attempts = [''a1'', ''b1'', ''b2'', ''c1''], env = ()\<rparr>)
   \<and> successful [(''A'', Reading ''A'' ''Chain A'' 30000000000 30 ''high''),
                 (''B'', Reading ''B'' ''Chain B'' 10000000000 10 ''medium''),
                 (''C'', Failure (Some ''C'') ''All RPCs failed'')]
       = [Price ''A'' ''Chain A'' 30, Price ''B'' ''Chain B'' 10]
   \<and> gas_recommend repr_example table_abc net_abc w0 =
       (Inr (JDict [(''recommendation'', JStr ''B''),
                    (''reason'', JStr ''Chain B has lowest gas at 10.0 gwei''),
                    (''ranking'',
                       JList [JDict [(''chain'', JStr ''B''), (''name'', JStr ''Chain B''),
                                     (''gwei'', JFloat (Finite 10))],
                              JDict [(''chain'', JStr ''A''), (''name'', JStr ''Chain A''),
                                     (''gwei'', JFloat (Finite 30))]])]),
        \<lparr>attempts = [''a1'', ''b1'', ''b2'', ''c1''], env = ()\<rparr>)"
proof -
  let ?results = "[(''A'', Reading ''A'' ''Chain A'' 30000000000 30 ''high''),
                   (''B'', Reading ''B'' ''Chain B'' 10000000000 10 ''medium''),
                   (''C'', Failure (Some ''C'') ''All RPCs failed'')]"
  have 1: "fetch_each table_abc net_abc (map fst table_abc) w0 =
             (?results, \<lparr>attempts = [''a1'', ''b1'', ''b2'', ''c1''], env = ()\<rparr>)"
    by (rule fetch_each_abc)
  have 2: "successful ?results = [Price ''A'' ''Chain A'' 30, Price ''B'' ''Chain B'' 10]"
    by (simp add: successful_def has_gasPrice_def)
  have 3: "successful ?results \<noteq> []" by (simp add: 2)
  from cheapest_chain_recommended[OF 1 3, of repr_example]
  obtain ranking where g: "gas_recommend repr_example table_abc net_abc w0 =
             (Inr (JDict [(''recommendation'', JStr (p_chain (hd ranking))),
                          (''reason'', JStr (reason_text repr_example (hd ranking))),
                          (''ranking'', JList (map price_json ranking))]),
              \<lparr>attempts = [''a1'', ''b1'', ''b2'', ''c1''], env = ()\<rparr>)"
    and l: "length ranking = length (successful ?results)"
    and s: "sorted (map p_gwei ranking)"
    and f: "\<forall>k. filter (\<lambda>p. p_gwei p = k) ranking = filter (\<lambda>p. p_gwei p = k) (successful ?results)"
    by blast
  from l obtain x y where xy: "ranking = [x, y]"
    unfolding 2 by (cases ranking; cases "tl ranking") auto
  from f have "filter (\<lambda>p. p_gwei p = 10) ranking = [Price ''B'' ''Chain B'' 10]"
    and "filter (\<lambda>p. p_gwei p = 30) ranking = [Price ''A'' ''Chain A'' 30]"
    unfolding 2 by simp_all
  with s have "ranking = [Price ''B'' ''Chain B'' 10, Price ''A'' ''Chain A'' 30]"
    unfolding xy by (auto split: if_splits)
  with g 1 2 show ?thesis
    by (simp add: price_json_def reason_text_def repr_example_def)
qed

text \<open>
  Claim C4, as stated, fails for \<^verbatim>\<open>premium_recommend\<close>. When every fetch fails, it
  returns, as an ordinary paid answer, a \<^verbatim>\<open>null\<close> recommendation with the reason
  \<^verbatim>\<open>No data\<close> and an empty ranking.
\<close>

theorem premium_recommend_no_data:
  "fst (fetch_each table_abc net_down (map fst table_abc) w0) =
     [(''A'', Failure (Some ''A'') ''All RPCs failed''),
      (''B'', Failure (Some ''B'') ''All RPCs failed''),
      (''C'', Failure (Some ''C'') ''All RPCs failed'')]
   \<and> premium_recommend req_paid repr_example table_abc net_down w0 =
       (Inr (Returned (JDict [(''paid'', JBool True), (''recommendation'', JNull),
                              (''reason'', JStr ''No data''), (''ranking'', JList [])])),
        \<lparr>attempts = [''a1'', ''b1'', ''b2'', ''c1''], env = ()\<rparr>)"
  by (simp add: fetch_each_down premium_recommend_down)

text \<open>
  Claim C4, amended. When the fetch of every chain fails, \<^verbatim>\<open>gas_recommend\<close> returns
  the distinct error result \<^verbatim>\<open>{"error": "Could not fetch gas prices"}\<close>, whereas
  \<^verbatim>\<open>premium_recommend\<close>, for a request with a payment header, returns the payload
  with \<^verbatim>\<open>paid\<close> true, a \<^verbatim>\<open>null\<close> recommendation, the reason \<^verbatim>\<open>No data\<close> and
  an empty ranking.
\<close>

theorem no_data_results:
  assumes "fetch_each tbl net (map fst tbl) w = (results, w')"
    and "\<forall>(c, r) \<in> set results. \<not> has_gasPrice r"
  shows "gas_recommend repr tbl net w =
           (Inr (JDict [(''error'', JStr ''Could not fetch gas prices'')]), w')
       \<and> (\<not> not_paid req \<longrightarrow>
            premium_recommend req repr tbl net w =
              (Inr (Returned (JDict [(''paid'', JBool True), (''recommendation'', JNull),
                                     (''reason'', JStr ''No data''), (''ranking'', JList [])])),
               w'))"
proof -
  from assms(2) have "filter (\<lambda>(c, r). has_gasPrice r) results = []"
    by (auto simp: filter_empty_conv)
  then have s: "successful results = []" by (simp add: successful_def)
  have "gas_recommend repr tbl net w =
          (Inr (JDict [(''error'', JStr ''Could not fetch gas prices'')]), w')"
    using collect_prices_eq[of tbl net "map fst tbl" "[]" w]
    by (simp add: gas_recommend_def assms(1) s)
  moreover have "premium_recommend req repr tbl net w =
              (Inr (Returned (JDict [(''paid'', JBool True), (''recommendation'', JNull),
                                     (''reason'', JStr ''No data''), (''ranking'', JList [])])),
               w')" if "\<not> not_paid req"
    using premium_recommend_eq[OF that assms(1), of repr] by (simp add: s)
  ultimately show ?thesis by blast
qed

text \<open>Witness for C4: the three example chains on a network where every attempt raises.\<close>

theorem no_data_results_witness:
  "fetch_each table_abc net_down (map fst table_abc) w0 =
     ([(''A'', Failure (Some ''A'') ''All RPCs failed''),
       (''B'', Failure (Some ''B'') ''All RPCs failed''),
       (''C'', Failure (Some ''C'') ''All RPCs failed'')],
      \<lparr>attempts = [''a1'', ''b1'', ''b2'', ''c1''], env = ()\<rparr>)
   \<and> \<not> not_paid req_paid
   \<and> gas_recommend repr_example table_abc net_down w0 =
       (Inr (JDict [(''error'', JStr ''Could not fetch gas prices'')]),
        \<lparr>attempts = [''a1'', ''b1'', ''b2'', ''c1''], env = ()\<rparr>)
   \<and> premium_recommend req_paid repr_example table_abc net_down w0 =
       (Inr (Returned (JDict [(''paid'', JBool True), (''recommendation'', JNull),
                              (''reason'', JStr ''No data''), (''ranking'', JList [])])),
        \<lparr>attempts = [''a1'', ''b1'', ''b2'', ''c1''], env = ()\<rparr>)"
proof -
  let ?results = "[(''A'', Failure (Some ''A'') ''All RPCs failed''),
                   (''B'', Failure (Some ''B'') ''All RPCs failed''),
                   (''C'', Failure (Some ''C'') ''All RPCs failed'')]"
  have 1: "fetch_each table_abc net_down (map fst table_abc) w0 =
             (?results, \<lparr>attempts = [''a1'', ''b1'', ''b2'', ''c1''], env = ()\<rparr>)"
    by (rule fetch_each_down)
  have 2: "\<forall>(c, r) \<in> set ?results. \<not> has_gasPrice r" by (simp add: has_gasPrice_def)
  have 3: "\<not> not_paid req_paid" by (simp add: not_paid_def payment_header_def req_paid_def)
  from no_data_results[OF 1 2, of repr_example req_paid] 1 3 show ?thesis by simp
qed

text \<open>
  Claim C6. For a table of distinct chain identifiers, \<^verbatim>\<open>gas_all\<close> returns a
  mapping with one entry for every configured chain, in the order of the table: the
  reading or the all-endpoints-failed failure that \<^verbatim>\<open>fetch_gas_price\<close> returned for
  that chain. No fetch aborts the loop, and when the answer of an endpoint depends on
  its URL only, each entry is what \<^verbatim>\<open>fetch_gas_price\<close> returns for that chain on
  its own, whatever happened on the other chains.
\<close>

theorem gas_all_complete:
  assumes "distinct (map fst tbl)"
  shows "\<exists>results w'.
           fetch_each tbl net (map fst tbl) w = (results, w')
         \<and> gas_all tbl net w = (Inr (JDict (map (\<lambda>(c, r). (c, result_json r)) results)), w')
         \<and> map fst results = map fst tbl
         \<and> (\<forall>(c, r) \<in> set results.
               r = Failure (Some c) ''All RPCs failed'' \<or> (\<exists>nm wei. r = gas_reading c nm wei))
         \<and> (stateless net \<longrightarrow>
               (\<forall>(c, r) \<in> set results. fst (fetch_gas_price tbl net c w) = Inr r))"
proof -
  obtain results w' where e: "fetch_each tbl net (map fst tbl) w = (results, w')"
    by (cases "fetch_each tbl net (map fst tbl) w")
  have g: "gas_all tbl net w = (Inr (JDict (map (\<lambda>(c, r). (c, result_json r)) results)), w')"
    using collect_results_eq[OF assms, of "[]" tbl net w]
    by (simp add: gas_all_def results_json_def e)
  have k: "map fst results = map fst tbl"
    using fetch_each_keys[of tbl net "map fst tbl" w] by (simp add: e)
  have s: "r = Failure (Some c) ''All RPCs failed'' \<or> (\<exists>nm wei. r = gas_reading c nm wei)"
    if "(c, r) \<in> set results" for c r
  proof -
    from that have "c \<in> set (map fst results)" by force
    then have "c \<in> fst ` set tbl" by (simp add: k)
    then obtain cfg where m: "map_of tbl c = Some cfg"
      by (cases "map_of tbl c") (auto simp: map_of_eq_None_iff)
    from that e fetch_each_entries[of c r tbl net "map fst tbl" w]
    obtain w1 w2 where "fetch_gas_price tbl net c w1 = (Inr r, w2)" by auto
    from fetch_shape[OF m this] show ?thesis by blast
  qed
  have i: "fst (fetch_gas_price tbl net c w) = Inr r"
    if "stateless net" "(c, r) \<in> set results" for c r
  proof -
    from that(2) e fetch_each_entries[of c r tbl net "map fst tbl" w]
    obtain w1 w2 where "fetch_gas_price tbl net c w1 = (Inr r, w2)" by auto
    with fetch_stateless[OF that(1), of tbl c w w1] show ?thesis by simp
  qed
  from e g k s i show ?thesis by blast
qed

text \<open>Witness for C6: chains A and B have a reading, chain C has its failure entry.\<close>

theorem gas_all_complete_witness:
  "distinct (map fst table_abc)
   \<and> stateless net_abc
   \<and> gas_all table_abc net_abc w0 =
       (Inr (JDict
          [(''A'', JDict [(''chain'', JStr ''A''), (''name'', JStr ''Chain A''),
                          (''gasPrice'', JDict [(''wei'', JInt 30000000000), (''gwei'', JFloat (Finite 30))]),
                          (''level'', JStr ''high'')]),
           (''B'', JDict [(''chain'', JStr ''B''), (''name'', JStr ''Chain B''),
                          (''gasPrice'', JDict [(''wei'', JInt 10000000000), (''gwei'', JFloat (Finite 10))]),
                          (''level'', JStr ''medium'')]),
           (''C'', JDict [(''chain'', JStr ''C''), (''error'', JStr ''All RPCs failed'')])]),
        \<lparr>attempts = [''a1'', ''b1'', ''b2'', ''c1''], env = ()\<rparr>)"
proof -
  have 1: "distinct (map fst table_abc)" by (rule distinct_abc)
  have 2: "stateless net_abc" by (simp add: stateless_def net_abc_def)
  have 3: "fetch_each table_abc net_abc (map fst table_abc) w0 =
             ([(''A'', Reading ''A'' ''Chain A'' 30000000000 30 ''high''),
               (''B'', Reading ''B'' ''Chain B'' 10000000000 10 ''medium''),
               (''C'', Failure (Some ''C'') ''All RPCs failed'')],
              \<lparr>attempts = [''a1'', ''b1'', ''b2'', ''c1''], env = ()\<rparr>)"
    by (rule fetch_each_abc)
  from gas_all_complete[OF 1, of net_abc w0] 1 2 show ?thesis
    unfolding 3 by simp
qed

text \<open>
  Claim C9, as stated, fails. For a request with a payment header on a network where
  every fetch fails, \<^verbatim>\<open>gas_recommend\<close> returns the error dictionary, and what
  \<^verbatim>\<open>premium_recommend\<close> returns is neither that dictionary nor that dictionary with
  \<^verbatim>\<open>paid\<close> added.
\<close>

theorem premium_recommend_differs:
  "\<not> not_paid req_paid
   \<and> gas_recommend repr_example table_abc net_down w0 =
       (Inr (JDict [(''error'', JStr ''Could not fetch gas prices'')]),
        \<lparr>attempts = [''a1'', ''b1'', ''b2'', ''c1''], env = ()\<rparr>)
   \<and> fst (premium_recommend req_paid repr_example table_abc net_down w0)
        \<noteq> Inr (Returned (JDict [(''paid'', JBool True),
                                  (''error'', JStr ''Could not fetch gas prices'')]))
   \<and> fst (premium_recommend req_paid repr_example table_abc net_down w0)
        \<noteq> Inr (Returned (JDict [(''error'', JStr ''Could not fetch gas prices'')]))"
  by (simp add: req_paid_paid gas_recommend_down premium_recommend_down)

text \<open>
  Claim C9, amended. For a request with a non-empty payment header,
  \<^verbatim>\<open>premium_all\<close> returns \<^verbatim>\<open>{"paid": true, "data": d}\<close> where \<open>d\<close> is the mapping
  \<^verbatim>\<open>gas_all\<close> returns on the same fetches; whenever at least one fetch succeeded,
  \<^verbatim>\<open>premium_recommend\<close> returns the recommendation, reason and ranking of
  \<^verbatim>\<open>gas_recommend\<close> with \<^verbatim>\<open>paid\<close> true in front; and when every fetch fails,
  \<^verbatim>\<open>gas_recommend\<close> returns its error dictionary while \<^verbatim>\<open>premium_recommend\<close>
  returns a \<^verbatim>\<open>null\<close> recommendation with the reason \<^verbatim>\<open>No data\<close> and an empty
  ranking.
\<close>

theorem premium_payloads:
  assumes "\<not> not_paid req"
  shows "(\<exists>data w'. gas_all tbl net w = (Inr data, w')
            \<and> premium_all req tbl net w =
                (Inr (Returned (JDict [(''paid'', JBool True), (''data'', data)])), w'))
       \<and> (successful (fst (fetch_each tbl net (map fst tbl) w)) \<noteq> [] \<longrightarrow>
            (\<exists>fields w'. gas_recommend repr tbl net w = (Inr (JDict fields), w')
               \<and> premium_recommend req repr tbl net w =
                   (Inr (Returned (JDict ((''paid'', JBool True) # fields))), w')))
       \<and> ((\<forall>(c, r) \<in> set (fst (fetch_each tbl net (map fst tbl) w)). \<not> has_gasPrice r) \<longrightarrow>
            (\<exists>w'. gas_recommend repr tbl net w =
                     (Inr (JDict [(''error'', JStr ''Could not fetch gas prices'')]), w')
               \<and> premium_recommend req repr tbl net w =
                   (Inr (Returned (JDict [(''paid'', JBool True), (''recommendation'', JNull),
                                          (''reason'', JStr ''No data''),
                                          (''ranking'', JList [])])), w')))"
proof (intro conjI impI)
  from collect_results_Inr[of tbl net "map fst tbl" "[]" w]
  obtain rs w' where "collect_results tbl net (map fst tbl) [] w = (Inr rs, w')" by blast
  then show "\<exists>data w'. gas_all tbl net w = (Inr data, w')
            \<and> premium_all req tbl net w =
                (Inr (Returned (JDict [(''paid'', JBool True), (''data'', data)])), w')"
    using assms by (simp add: gas_all_def premium_all_def)
next
  assume ne: "successful (fst (fetch_each tbl net (map fst tbl) w)) \<noteq> []"
  obtain results w' where e: "fetch_each tbl net (map fst tbl) w = (results, w')"
    by (cases "fetch_each tbl net (map fst tbl) w")
  with ne have "successful results \<noteq> []" by simp
  from sort_key_nonempty[OF this] obtain p ps where r: "sort_key p_gwei (successful results) = p # ps"
    by (cases "sort_key p_gwei (successful results)") auto
  from gas_recommend_eq[OF e r, of repr] premium_recommend_eq[OF assms e, of repr]
  show "\<exists>fields w'. gas_recommend repr tbl net w = (Inr (JDict fields), w')
               \<and> premium_recommend req repr tbl net w =
                   (Inr (Returned (JDict ((''paid'', JBool True) # fields))), w')"
    by (simp add: r)
next
  assume all: "\<forall>(c, r) \<in> set (fst (fetch_each tbl net (map fst tbl) w)). \<not> has_gasPrice r"
  obtain results w' where e: "fetch_each tbl net (map fst tbl) w = (results, w')"
    by (cases "fetch_each tbl net (map fst tbl) w")
  from all e have "filter (\<lambda>(c, r). has_gasPrice r) results = []"
    by (auto simp: filter_empty_conv)
  then have s: "successful results = []" by (simp add: successful_def)
  have "gas_recommend repr tbl net w =
          (Inr (JDict [(''error'', JStr ''Could not fetch gas prices'')]), w')"
    using collect_prices_eq[of tbl net "map fst tbl" "[]" w]
    by (simp add: gas_recommend_def e s)
  moreover have "premium_recommend req repr tbl net w =
              (Inr (Returned (JDict [(''paid'', JBool True), (''recommendation'', JNull),
                                     (''reason'', JStr ''No data''), (''ranking'', JList [])])),
               w')"
    using premium_recommend_eq[OF assms e, of repr] by (simp add: s)
  ultimately show "\<exists>w'. gas_recommend repr tbl net w =
                     (Inr (JDict [(''error'', JStr ''Could not fetch gas prices'')]), w')
               \<and> premium_recommend req repr tbl net w =
                   (Inr (Returned (JDict [(''paid'', JBool True), (''recommendation'', JNull),
                                          (''reason'', JStr ''No data''),
                                          (''ranking'', JList [])])), w')"
    by blast
qed

text \<open>
  Witness for C9: the example chains with a payment header, on the network where A and B
  answer and on the network where every attempt raises.
\<close>

theorem premium_payloads_witness:
  "\<not> not_paid req_paid
   \<and> successful (fst (fetch_each table_abc net_abc (map fst table_abc) w0)) \<noteq> []
   \<and> premium_all req_paid table_abc net_abc w0 =
       (Inr (Returned (JDict [(''paid'', JBool True),
                              (''data'', JDict
          [(''A'', JDict [(''chain'', JStr ''A''), (''name'', JStr ''Chain A''),
                          (''gasPrice'', JDict [(''wei'', JInt 30000000000), (''gwei'', JFloat (Finite 30))]),
                          (''level'', JStr ''high'')]),
           (''B'', JDict [(''chain'', JStr ''B''), (''name'', JStr ''Chain B''),
                          (''gasPrice'', JDict [(''wei'', JInt 10000000000), (''gwei'', JFloat (Finite 10))]),
                          (''level'', JStr ''medium'')]),
           (''C'', JDict [(''chain'', JStr ''C''), (''error'', JStr ''All RPCs failed'')])])])),
        \<lparr>attempts = [''a1'', ''b1'', ''b2'', ''c1''], env = ()\<rparr>)
   \<and> premium_recommend req_paid repr_example table_abc net_abc w0 =
       (Inr (Returned (JDict [(''paid'', JBool True),
                    (''recommendation'', JStr ''B''),
                    (''reason'', JStr ''Chain B has lowest gas at 10.0 gwei''),
                    (''ranking'',
                       JList [JDict [(''chain'', JStr ''B''), (''name'', JStr ''Chain B''),
                                     (''gwei'', JFloat (Finite 10))],
                              JDict [(''chain'', JStr ''A''), (''name'', JStr ''Chain A''),
                                     (''gwei'', JFloat (Finite 30))]])])),
        \<lparr>attempts = [''a1'', ''b1'', ''b2'', ''c1''], env = ()\<rparr>)
   \<and> fst (fetch_each table_abc net_down (map fst table_abc) w0) =
       [(''A'', Failure (Some ''A'') ''All RPCs failed''),
        (''B'', Failure (Some ''B'') ''All RPCs failed''),
        (''C'', Failure (Some ''C'') ''All RPCs failed'')]
   \<and> gas_recommend repr_example table_abc net_down w0 =
       (Inr (JDict [(''error'', JStr ''Could not fetch gas prices'')]),
        \<lparr>attempts = [''a1'', ''b1'', ''b2'', ''c1''], env = ()\<rparr>)
   \<and> premium_recommend req_paid repr_example table_abc net_down w0 =
       (Inr (Returned (JDict [(''paid'', JBool True), (''recommendation'', JNull),
                              (''reason'', JStr ''No data''), (''ranking'', JList [])])),
        \<lparr>attempts = [''a1'', ''b1'', ''b2'', ''c1''], env = ()\<rparr>)"
proof -
  have 1: "\<not> not_paid req_paid" by (simp add: not_paid_def payment_header_def req_paid_def)
  have 2: "successful (fst (fetch_each table_abc net_abc (map fst table_abc) w0)) \<noteq> []"
    by (simp add: fetch_each_abc successful_abc)
  have 3: "gas_recommend repr_example table_abc net_abc w0 =
       (Inr (JDict [(''recommendation'', JStr ''B''),
                    (''reason'', JStr ''Chain B has lowest gas at 10.0 gwei''),
                    (''ranking'',
                       JList [JDict [(''chain'', JStr ''B''), (''name'', JStr ''Chain B''),
                                     (''gwei'', JFloat (Finite 10))],
                              JDict [(''chain'', JStr ''A''), (''name'', JStr ''Chain A''),
                                     (''gwei'', JFloat (Finite 30))]])]),
        \<lparr>attempts = [''a1'', ''b1'', ''b2'', ''c1''], env = ()\<rparr>)"
    by (rule gas_recommend_abc)
  have 4: "gas_all table_abc net_abc w0 =
       (Inr (JDict
          [(''A'', JDict [(''chain'', JStr ''A''), (''name'', JStr ''Chain A''),
                          (''gasPrice'', JDict [(''wei'', JInt 30000000000), (''gwei'', JFloat (Finite 30))]),
                          (''level'', JStr ''high'')]),
           (''B'', JDict [(''chain'', JStr ''B''), (''name'', JStr ''Chain B''),
                          (''gasPrice'', JDict [(''wei'', JInt 10000000000), (''gwei'', JFloat (Finite 10))]),
                          (''level'', JStr ''medium'')]),
           (''C'', JDict [(''chain'', JStr ''C''), (''error'', JStr ''All RPCs failed'')])]),
        \<lparr>attempts = [''a1'', ''b1'', ''b2'', ''c1''], env = ()\<rparr>)"
    by (rule gas_all_abc)
  have 5: "\<forall>(c, r) \<in> set (fst (fetch_each table_abc net_down (map fst table_abc) w0)).
             \<not> has_gasPrice r"
    by (simp add: fetch_each_down has_gasPrice_def)
  have 6: "gas_recommend repr_example table_abc net_down w0 =
       (Inr (JDict [(''error'', JStr ''Could not fetch gas prices'')]),
        \<lparr>attempts = [''a1'', ''b1'', ''b2'', ''c1''], env = ()\<rparr>)"
    by (rule gas_recommend_down)
  from premium_payloads[OF 1, of table_abc net_down w0 repr_example] 5
  have 7: "premium_recommend req_paid repr_example table_abc net_down w0 =
       (Inr (Returned (JDict [(''paid'', JBool True), (''recommendation'', JNull),
                              (''reason'', JStr ''No data''), (''ranking'', JList [])])),
        \<lparr>attempts = [''a1'', ''b1'', ''b2'', ''c1''], env = ()\<rparr>)"
    unfolding 6 by auto
  from premium_payloads[OF 1, of table_abc net_abc w0 repr_example] 1 2
  have 8: "premium_all req_paid table_abc net_abc w0 =
       (Inr (Returned (JDict [(''paid'', JBool True),
                              (''data'', JDict
          [(''A'', JDict [(''chain'', JStr ''A''), (''name'', JStr ''Chain A''),
                          (''gasPrice'', JDict [(''wei'', JInt 30000000000), (''gwei'', JFloat (Finite 30))]),
                          (''level'', JStr ''high'')]),
           (''B'', JDict [(''chain'', JStr ''B''), (''name'', JStr ''Chain B''),
                          (''gasPrice'', JDict [(''wei'', JInt 10000000000), (''gwei'', JFloat (Finite 10))]),
                          (''level'', JStr ''medium'')]),
           (''C'', JDict [(''chain'', JStr ''C''), (''error'', JStr ''All RPCs failed'')])])])),
        \<lparr>attempts = [''a1'', ''b1'', ''b2'', ''c1''], env = ()\<rparr>)
   \<and> premium_recommend req_paid repr_example table_abc net_abc w0 =
       (Inr (Returned (JDict [(''paid'', JBool True),
                    (''recommendation'', JStr ''B''),
                    (''reason'', JStr ''Chain B has lowest gas at 10.0 gwei''),
                    (''ranking'',
                       JList [JDict [(''chain'', JStr ''B''), (''name'', JStr ''Chain B''),
                                     (''gwei'', JFloat (Finite 10))],
                              JDict [(''chain'', JStr ''A''), (''name'', JStr ''Chain A''),
                                     (''gwei'', JFloat (Finite 30))]])])),
        \<lparr>attempts = [''a1'', ''b1'', ''b2'', ''c1''], env = ()\<rparr>)"
    unfolding 3 4 by auto
  have 9: "fst (fetch_each table_abc net_down (map fst table_abc) w0) =
       [(''A'', Failure (Some ''A'') ''All RPCs failed''),
        (''B'', Failure (Some ''B'') ''All RPCs failed''),
        (''C'', Failure (Some ''C'') ''All RPCs failed'')]"
    by (simp add: fetch_each_down)
  from 8 1 2 9 6 7 show ?thesis by simp
qed

end
